theory Spec2Isabelle
  imports Main
begin

section \<open>The friendship relation and its tables\<close>

text \<open>
  The router \<^verbatim>\<open>my-friend-router.ts\<close> composes SQL queries (through a query builder) over
  two tables, \<^verbatim>\<open>users\<close> and \<^verbatim>\<open>friendships\<close>. A table is modelled as the list of its rows
  (SQL relations are bags; the order of a result is whatever the engine produces, here the
  order of the lists), a row as a record of its columns.
\<close>

text \<open>
  Modelled from the spec: \<^verbatim>\<open>FriendshipStatusSchema\<close> is imported from
  \<^verbatim>\<open>@/utils/server/friendship-schemas\<close>, which is not among the sources; the spec gives the
  three values of a status.
\<close>

datatype FriendshipStatus = requested | accepted | declined

text \<open>
  Modelled from the spec: the declarations of the tables (\<^verbatim>\<open>Database\<close> of \<^verbatim>\<open>@/server/db\<close>) are not
  among the sources. The columns are the ones the router reads; the column \<^verbatim>\<open>id\<close> of \<^verbatim>\<open>users\<close>
  is written \<open>id'\<close>.
\<close>

record user_row =
  id' :: int
  fullName :: string
  phoneNumber :: string

record friendship_row =
  userId :: int
  friendUserId :: int
  status :: FriendshipStatus

record Database =
  users :: "user_row list"
  friendships :: "friendship_row list"

subsection \<open>Relational operators of the query builder\<close>

text \<open>
  \<^verbatim>\<open>innerJoin\<close> pairs every row of the left relation with every row of the right relation
  that satisfies the join condition; \<^verbatim>\<open>leftJoin\<close> keeps a left row without a partner, its
  right columns being NULL (\<open>None\<close>); \<^verbatim>\<open>groupBy\<close> collects the rows of each key, one group
  per distinct key; \<^verbatim>\<open>where\<close> is \<^const>\<open>filter\<close>.
\<close>

definition innerJoin :: "'a list \<Rightarrow> 'b list \<Rightarrow> ('a \<Rightarrow> 'b \<Rightarrow> bool) \<Rightarrow> ('a \<times> 'b) list" where
  "innerJoin xs ys on = concat (map (\<lambda>x. map (Pair x) (filter (on x) ys)) xs)"

definition leftJoin :: "'a list \<Rightarrow> 'b list \<Rightarrow> ('a \<Rightarrow> 'b \<Rightarrow> bool) \<Rightarrow> ('a \<times> 'b option) list" where
  "leftJoin xs ys on =
     concat (map (\<lambda>x. if filter (on x) ys = [] then [(x, None)]
                      else map (\<lambda>y. (x, Some y)) (filter (on x) ys)) xs)"

definition groupBy :: "('a \<Rightarrow> 'k) \<Rightarrow> 'a list \<Rightarrow> ('k \<times> 'a list) list" where
  "groupBy key rows =
     map (\<lambda>k. (k, filter (\<lambda>r. key r = k) rows)) (remdups (map key rows))"

subsection \<open>Aggregators\<close>

text \<open>Rows of the subquery \<^verbatim>\<open>userTotalFriendCount\<close>: columns \<^verbatim>\<open>userId\<close>, \<^verbatim>\<open>totalFriendCount\<close>.\<close>

record total_row =
  total_userId :: int
  total_totalFriendCount :: int

text \<open>
  Rows of the subqueries \<^verbatim>\<open>userMutualFriendCount\<close> and \<^verbatim>\<open>mutualFriendsCountAll\<close>: columns
  \<^verbatim>\<open>user\<close>, \<^verbatim>\<open>friend\<close>, \<^verbatim>\<open>mutualFriendCount\<close>.
\<close>

record mutual_row =
  mutual_user :: int
  mutual_friend :: int
  mutual_mutualFriendCount :: int

text \<open>
  \<^verbatim>\<open>userTotalFriendCount\<close> (lines 203-212): the accepted rows of \<^verbatim>\<open>friendships\<close>, grouped by
  \<^verbatim>\<open>userId\<close>, with \<^verbatim>\<open>count(friendUserId)\<close> per group (the column is never NULL).
\<close>

definition userTotalFriendCount :: "friendship_row list \<Rightarrow> total_row list" where
  "userTotalFriendCount fs =
     map (\<lambda>(k, g). \<lparr>total_userId = k, total_totalFriendCount = int (length g)\<rparr>)
       (groupBy userId (filter (\<lambda>f. status f = accepted) fs))"

text \<open>
  The joined and filtered rows that \<^verbatim>\<open>userMutualFriendCount\<close> (lines 214-232) counts:
  \<^verbatim>\<open>friendships as f1\<close> joined with \<^verbatim>\<open>friendships as f2\<close> on equal \<^verbatim>\<open>friendUserId\<close>, both accepted,
  \<^verbatim>\<open>f1.userId = friendUserId\<close> and \<^verbatim>\<open>f2.userId = userId\<close>.
\<close>

definition userMutualFriendCount_rows ::
    "friendship_row list \<Rightarrow> int \<Rightarrow> int \<Rightarrow> (friendship_row \<times> friendship_row) list" where
  "userMutualFriendCount_rows fs userId' friendUserId' =
     filter (\<lambda>(f1, f2). userId f2 = userId')
       (filter (\<lambda>(f1, f2). userId f1 = friendUserId')
         (filter (\<lambda>(f1, f2). status f2 = accepted)
           (filter (\<lambda>(f1, f2). status f1 = accepted)
             (innerJoin fs fs (\<lambda>f1 f2. friendUserId f1 = friendUserId f2)))))"

definition userMutualFriendCount :: "friendship_row list \<Rightarrow> int \<Rightarrow> int \<Rightarrow> mutual_row list" where
  "userMutualFriendCount fs userId' friendUserId' =
     map (\<lambda>(k, g). \<lparr>mutual_user = fst k, mutual_friend = snd k,
                     mutual_mutualFriendCount = int (length g)\<rparr>)
       (groupBy (\<lambda>(f1, f2). (userId f1, userId f2))
          (userMutualFriendCount_rows fs userId' friendUserId'))"

text \<open>
  The rows that \<^verbatim>\<open>mutualFriendsCountAll\<close> (lines 234-251) counts: the self-join on equal
  \<^verbatim>\<open>friendUserId\<close>, different \<^verbatim>\<open>userId\<close> and \<^verbatim>\<open>f2.userId = userId\<close>, both rows accepted.
\<close>

definition mutualFriendsCountAll_rows ::
    "friendship_row list \<Rightarrow> int \<Rightarrow> (friendship_row \<times> friendship_row) list" where
  "mutualFriendsCountAll_rows fs userId' =
     filter (\<lambda>(f1, f2). status f2 = accepted)
       (filter (\<lambda>(f1, f2). status f1 = accepted)
         (innerJoin fs fs (\<lambda>f1 f2. friendUserId f1 = friendUserId f2
                                  \<and> userId f1 \<noteq> userId f2 \<and> userId f2 = userId')))"

definition mutualFriendsCountAll :: "friendship_row list \<Rightarrow> int \<Rightarrow> mutual_row list" where
  "mutualFriendsCountAll fs userId' =
     map (\<lambda>(k, g). \<lparr>mutual_user = fst k, mutual_friend = snd k,
                     mutual_mutualFriendCount = int (length g)\<rparr>)
       (groupBy (\<lambda>(f1, f2). (userId f1, userId f2)) (mutualFriendsCountAll_rows fs userId'))"

section \<open>Schemas and errors\<close>

text \<open>
  Values that cross the boundary of a procedure (the request input, the columns of a result
  row) are JavaScript values. Only integral numbers are represented.
\<close>

datatype jsvalue = JNumber int | JString string | JBool bool | JNull | JUndefined

text \<open>
  \<^verbatim>\<open>NOT_FOUND\<close> is the error of \<^verbatim>\<open>executeTakeFirstOrThrow\<close>; \<^verbatim>\<open>BAD_REQUEST\<close> is what the
  procedure answers when its \<^verbatim>\<open>.input(...)\<close> schema rejects the request; \<^verbatim>\<open>ZodError\<close> is what
  \<^verbatim>\<open>.parse\<close> throws on a result row.
\<close>

datatype error = NOT_FOUND | BAD_REQUEST | ZodError

text \<open>
  Modelled from the spec: \<^verbatim>\<open>IdSchema\<close> is imported from \<^verbatim>\<open>@/utils/server/base-schemas\<close>, which is
  not among the sources. The spec gives \<^verbatim>\<open>id: integer (>0)\<close> and calls a non-positive id or a
  value of the wrong type a malformed identity.
\<close>

definition IdSchema :: "jsvalue \<Rightarrow> int option" where
  "IdSchema v = (case v of JNumber n \<Rightarrow> if 1 \<le> n then Some n else None | _ \<Rightarrow> None)"

text \<open>
  Modelled from the spec: \<^verbatim>\<open>NonEmptyStringSchema\<close>, of the same missing file. The spec gives
  \<^verbatim>\<open>fullName: non-empty string\<close> and \<^verbatim>\<open>phoneNumber: non-empty string\<close>.
\<close>

definition NonEmptyStringSchema :: "jsvalue \<Rightarrow> string option" where
  "NonEmptyStringSchema v = (case v of JString s \<Rightarrow> if s \<noteq> [] then Some s else None | _ \<Rightarrow> None)"

text \<open>
  Modelled from the spec: \<^verbatim>\<open>CountSchema\<close>, of the same missing file. The spec gives
  \<^verbatim>\<open>totalFriendCount: integer (>=0)\<close> and \<^verbatim>\<open>mutualFriendCount: integer (>=0)\<close>, and says that a
  null where a count was expected is a defect, not a silently coerced default: NULL is
  rejected.
\<close>

definition CountSchema :: "jsvalue \<Rightarrow> int option" where
  "CountSchema v = (case v of JNumber n \<Rightarrow> if 0 \<le> n then Some n else None | _ \<Rightarrow> None)"

text \<open>A row of the composed select, before \<^verbatim>\<open>.parse\<close>; a column is a JavaScript value.\<close>

record result_row =
  row_id :: jsvalue
  row_fullName :: jsvalue
  row_phoneNumber :: jsvalue
  row_totalFriendCount :: jsvalue
  row_mutualFriendCount :: jsvalue

record FriendRecord =
  friend_id :: int
  friend_fullName :: string
  friend_phoneNumber :: string
  totalFriendCount :: int
  mutualFriendCount :: int

text \<open>
  \<^verbatim>\<open>z.object({id: IdSchema, fullName: NonEmptyStringSchema, phoneNumber: NonEmptyStringSchema,
  totalFriendCount: CountSchema, mutualFriendCount: CountSchema}).parse\<close>
\<close>

definition parseFriendRecord :: "result_row \<Rightarrow> error + FriendRecord" where
  "parseFriendRecord r =
     (case (IdSchema (row_id r), NonEmptyStringSchema (row_fullName r),
            NonEmptyStringSchema (row_phoneNumber r), CountSchema (row_totalFriendCount r),
            CountSchema (row_mutualFriendCount r)) of
        (Some i, Some n, Some p, Some t, Some m) \<Rightarrow>
          Inr \<lparr>friend_id = i, friend_fullName = n, friend_phoneNumber = p,
               totalFriendCount = t, mutualFriendCount = m\<rparr>
      | _ \<Rightarrow> Inl ZodError)"

text \<open>\<^verbatim>\<open>z.array(z.object({...})).parse\<close>: every row must parse.\<close>

fun parseFriendRecords :: "result_row list \<Rightarrow> error + FriendRecord list" where
  "parseFriendRecords [] = Inr []"
| "parseFriendRecords (r # rs) =
     (case parseFriendRecord r of
        Inl e \<Rightarrow> Inl e
      | Inr x \<Rightarrow> (case parseFriendRecords rs of Inl e \<Rightarrow> Inl e | Inr xs \<Rightarrow> Inr (x # xs)))"

text \<open>The value of a joined column that is NULL when the left join found no partner.\<close>

definition column :: "('a \<Rightarrow> int) \<Rightarrow> 'a option \<Rightarrow> jsvalue" where
  "column c m = (case m of None \<Rightarrow> JNull | Some r \<Rightarrow> JNumber (c r))"

text \<open>\<^verbatim>\<open>eb.fn.coalesce(col, sql`0`)\<close>\<close>

definition coalesce :: "jsvalue \<Rightarrow> int \<Rightarrow> jsvalue" where
  "coalesce v d = (case v of JNull \<Rightarrow> JNumber d | _ \<Rightarrow> v)"

section \<open>The procedures of the router\<close>

subsection \<open>\<^verbatim>\<open>getById\<close> (lines 17-87)\<close>

definition getById_query :: "Database \<Rightarrow> int \<Rightarrow> int \<Rightarrow> result_row list" where
  "getById_query db sessionUserId inputFriendUserId =
     map (\<lambda>(((friends, fr), tot), mut).
            \<lparr>row_id = JNumber (id' friends),
             row_fullName = JString (fullName friends),
             row_phoneNumber = JString (phoneNumber friends),
             row_totalFriendCount = JNumber (total_totalFriendCount tot),
             row_mutualFriendCount = coalesce (column mutual_mutualFriendCount mut) 0\<rparr>)
       (filter (\<lambda>(((friends, fr), tot), mut). status fr = accepted)
         (filter (\<lambda>(((friends, fr), tot), mut). friendUserId fr = inputFriendUserId)
           (filter (\<lambda>(((friends, fr), tot), mut). userId fr = sessionUserId)
             (leftJoin
               (innerJoin
                 (innerJoin (users db) (friendships db)
                    (\<lambda>friends fr. friendUserId fr = id' friends))
                 (userTotalFriendCount (friendships db))
                 (\<lambda>(friends, fr) tot. total_userId tot = id' friends))
               (userMutualFriendCount (friendships db) sessionUserId inputFriendUserId)
               (\<lambda>((friends, fr), tot) mut. mutual_user mut = id' friends)))))"

text \<open>
  The body of the mutation: the query, \<^verbatim>\<open>executeTakeFirstOrThrow\<close> with \<^verbatim>\<open>NOT_FOUND\<close>, then
  the parse of the row.
\<close>

definition getById_mutation :: "Database \<Rightarrow> int \<Rightarrow> int \<Rightarrow> error + FriendRecord" where
  "getById_mutation db sessionUserId inputFriendUserId =
     (case getById_query db sessionUserId inputFriendUserId of
        [] \<Rightarrow> Inl NOT_FOUND
      | r # _ \<Rightarrow> parseFriendRecord r)"

text \<open>
  The procedure: \<^verbatim>\<open>.input(z.object({friendUserId: IdSchema}))\<close> is checked before the mutation
  runs. The second component counts the queries executed against the store
  (\<^verbatim>\<open>ctx.db.connection().execute\<close> is called once, inside the mutation). The session's
  \<^verbatim>\<open>userId\<close> comes from the authentication layer and is taken as given.
\<close>

definition getById :: "Database \<Rightarrow> int \<Rightarrow> jsvalue \<Rightarrow> (error + FriendRecord) \<times> nat" where
  "getById db sessionUserId friendUserId_input =
     (case IdSchema friendUserId_input of
        None \<Rightarrow> (Inl BAD_REQUEST, 0)
      | Some inputFriendUserId \<Rightarrow> (getById_mutation db sessionUserId inputFriendUserId, 1))"

subsection \<open>\<^verbatim>\<open>getAll\<close> (lines 89-132)\<close>

definition getAll_query :: "Database \<Rightarrow> int \<Rightarrow> result_row list" where
  "getAll_query db sessionUserId =
     map (\<lambda>(((friends, fr), tot), mut).
            \<lparr>row_id = JNumber (id' friends),
             row_fullName = JString (fullName friends),
             row_phoneNumber = JString (phoneNumber friends),
             row_totalFriendCount = JNumber (total_totalFriendCount tot),
             row_mutualFriendCount = column mutual_mutualFriendCount mut\<rparr>)
       (filter (\<lambda>(((friends, fr), tot), mut). status fr = accepted)
         (filter (\<lambda>(((friends, fr), tot), mut). userId fr = sessionUserId)
           (leftJoin
             (innerJoin
               (innerJoin (users db) (friendships db)
                  (\<lambda>friends fr. friendUserId fr = id' friends))
               (userTotalFriendCount (friendships db))
               (\<lambda>(friends, fr) tot. total_userId tot = id' friends))
             (mutualFriendsCountAll (friendships db) sessionUserId)
             (\<lambda>((friends, fr), tot) mut. mutual_user mut = id' friends))))"

definition getAll :: "Database \<Rightarrow> int \<Rightarrow> error + FriendRecord list" where
  "getAll db sessionUserId = parseFriendRecords (getAll_query db sessionUserId)"

subsection \<open>\<^verbatim>\<open>getAll1\<close> (lines 134-200)\<close>

text \<open>
  The three common table expressions. \<^verbatim>\<open>userFriendships\<close> and \<^verbatim>\<open>friendsFriendships\<close> select the
  columns \<^verbatim>\<open>(userId, friendUserId)\<close>.
\<close>

definition userFriendships :: "friendship_row list \<Rightarrow> int \<Rightarrow> (int \<times> int) list" where
  "userFriendships fs sessionUserId =
     map (\<lambda>f. (userId f, friendUserId f))
       (filter (\<lambda>f. userId f = sessionUserId) (filter (\<lambda>f. status f = accepted) fs))"

definition friendsFriendships :: "friendship_row list \<Rightarrow> int \<Rightarrow> (int \<times> int) list" where
  "friendsFriendships fs sessionUserId =
     map (\<lambda>f. (userId f, friendUserId f))
       (filter (\<lambda>f. userId f \<noteq> sessionUserId) (filter (\<lambda>f. status f = accepted) fs))"

definition mutualFriendCount_cte :: "friendship_row list \<Rightarrow> int \<Rightarrow> mutual_row list" where
  "mutualFriendCount_cte fs sessionUserId =
     map (\<lambda>(k, g). \<lparr>mutual_user = fst k, mutual_friend = snd k,
                     mutual_mutualFriendCount = int (length g)\<rparr>)
       (groupBy (\<lambda>(f1, f2). (fst f1, fst f2))
          (innerJoin (userFriendships fs sessionUserId) (friendsFriendships fs sessionUserId)
             (\<lambda>f1 f2. snd f1 = snd f2)))"

text \<open>
  The main select groups by \<^verbatim>\<open>friends.id\<close>; \<^verbatim>\<open>totalFriendCount\<close> is
  \<^verbatim>\<open>count(friendsFriendships.friendUserId)\<close> over the group, the other columns are bare columns,
  which the engine reads off one row of the group (here its first).
\<close>

definition getAll1_query :: "Database \<Rightarrow> int \<Rightarrow> result_row list" where
  "getAll1_query db sessionUserId =
     concat (map (\<lambda>(k, g). case g of
                    [] \<Rightarrow> []
                  | ((friends, ff), mut) # _ \<Rightarrow>
                      [\<lparr>row_id = JNumber (id' friends),
                        row_fullName = JString (fullName friends),
                        row_phoneNumber = JString (phoneNumber friends),
                        row_totalFriendCount = JNumber (int (length g)),
                        row_mutualFriendCount = column mutual_mutualFriendCount mut\<rparr>])
       (groupBy (\<lambda>((friends, ff), mut). id' friends)
          (leftJoin
            (innerJoin (users db) (friendsFriendships (friendships db) sessionUserId)
               (\<lambda>friends ff. fst ff = id' friends))
            (mutualFriendCount_cte (friendships db) sessionUserId)
            (\<lambda>(friends, ff) mut. mutual_friend mut = id' friends))))"

definition getAll1 :: "Database \<Rightarrow> int \<Rightarrow> error + FriendRecord list" where
  "getAll1 db sessionUserId = parseFriendRecords (getAll1_query db sessionUserId)"

section \<open>Invariants of the stored data\<close>

text \<open>The accepted-symmetry invariant: every accepted edge has its accepted reverse.\<close>

definition accepted_edge :: "friendship_row list \<Rightarrow> int \<Rightarrow> int \<Rightarrow> bool" where
  "accepted_edge fs u v =
     list_ex (\<lambda>f. userId f = u \<and> friendUserId f = v \<and> status f = accepted) fs"

definition accepted_symmetric :: "friendship_row list \<Rightarrow> bool" where
  "accepted_symmetric fs =
     list_all (\<lambda>f. status f = accepted \<longrightarrow> accepted_edge fs (friendUserId f) (userId f)) fs"

text \<open>
  Modelled from the spec: the constraints of the tables, whose declarations are not among
  the sources. The spec's data model gives a user a positive \<^verbatim>\<open>id\<close> and non-empty \<^verbatim>\<open>fullName\<close>
  and \<^verbatim>\<open>phoneNumber\<close>.
\<close>

definition valid_user :: "user_row \<Rightarrow> bool" where
  "valid_user u = (1 \<le> id' u \<and> fullName u \<noteq> [] \<and> phoneNumber u \<noteq> [])"

text \<open>
  Modelled from the spec: user ids are unique, at most one edge per ordered pair is current,
  and an edge joins two users.
\<close>

definition wf_db :: "Database \<Rightarrow> bool" where
  "wf_db db =
     (distinct (map id' (users db))
      \<and> list_all valid_user (users db)
      \<and> distinct (map (\<lambda>f. (userId f, friendUserId f)) (friendships db))
      \<and> list_all (\<lambda>f. userId f \<in> set (map id' (users db))
                      \<and> friendUserId f \<in> set (map id' (users db))) (friendships db))"

section \<open>Derived quantities\<close>

text \<open>
  The definitions of this section are not part of the router; the lemmas below express the
  results of the queries through them.

  \<open>totalCount fs u\<close> is the number of accepted edges leaving \<open>u\<close>, and \<open>mutualCount fs u v\<close>
  the number of joined pairs that the single-pair aggregator counts for \<open>(u, v)\<close>.
  \<open>third_party_rows\<close> keeps, of these pairs, the ones whose shared neighbour is neither of the
  two users.
\<close>

definition totalCount :: "friendship_row list \<Rightarrow> int \<Rightarrow> nat" where
  "totalCount fs u = length (filter (\<lambda>f. userId f = u) (filter (\<lambda>f. status f = accepted) fs))"

definition mutualCount :: "friendship_row list \<Rightarrow> int \<Rightarrow> int \<Rightarrow> nat" where
  "mutualCount fs u v = length (userMutualFriendCount_rows fs u v)"

definition third_party_rows ::
    "friendship_row list \<Rightarrow> int \<Rightarrow> int \<Rightarrow> (friendship_row \<times> friendship_row) list" where
  "third_party_rows fs A B =
     filter (\<lambda>(f1, f2). friendUserId f1 \<noteq> A \<and> friendUserId f1 \<noteq> B)
       (userMutualFriendCount_rows fs A B)"

text \<open>
  The one row of \<^verbatim>\<open>userTotalFriendCount\<close> for a user, and the partner, if any, that the left
  join finds for a user in the result of \<^verbatim>\<open>userMutualFriendCount\<close>, of \<^verbatim>\<open>mutualFriendsCountAll\<close>
  and of the common table expression \<^verbatim>\<open>mutualFriendCount\<close> of \<^verbatim>\<open>getAll1\<close>.
\<close>

definition total_of :: "friendship_row list \<Rightarrow> int \<Rightarrow> total_row" where
  "total_of fs k = \<lparr>total_userId = k, total_totalFriendCount = int (totalCount fs k)\<rparr>"

definition single_partner :: "friendship_row list \<Rightarrow> int \<Rightarrow> int \<Rightarrow> int \<Rightarrow> mutual_row option" where
  "single_partner fs A B v =
     (if v = B \<and> 0 < mutualCount fs A B
      then Some \<lparr>mutual_user = B, mutual_friend = A,
                 mutual_mutualFriendCount = int (mutualCount fs A B)\<rparr>
      else None)"

definition batch_partner :: "friendship_row list \<Rightarrow> int \<Rightarrow> int \<Rightarrow> mutual_row option" where
  "batch_partner fs A v =
     (if v \<noteq> A \<and> 0 < mutualCount fs A v
      then Some \<lparr>mutual_user = v, mutual_friend = A,
                 mutual_mutualFriendCount = int (mutualCount fs A v)\<rparr>
      else None)"

definition cte_partner :: "friendship_row list \<Rightarrow> int \<Rightarrow> int \<Rightarrow> mutual_row option" where
  "cte_partner fs A v =
     (if v \<noteq> A \<and> 0 < mutualCount fs A v
      then Some \<lparr>mutual_user = A, mutual_friend = v,
                 mutual_mutualFriendCount = int (mutualCount fs A v)\<rparr>
      else None)"

text \<open>
  A result row built from a row of \<^verbatim>\<open>users\<close>, a total count and the mutual-count column, and
  the mutual-count column of the batch queries: NULL when the left join finds no partner.
\<close>

definition mk_row :: "user_row \<Rightarrow> int \<Rightarrow> jsvalue \<Rightarrow> result_row" where
  "mk_row u t m = \<lparr>row_id = JNumber (id' u), row_fullName = JString (fullName u),
                  row_phoneNumber = JString (phoneNumber u),
                  row_totalFriendCount = JNumber t, row_mutualFriendCount = m\<rparr>"

definition batch_column :: "friendship_row list \<Rightarrow> int \<Rightarrow> int \<Rightarrow> jsvalue" where
  "batch_column fs A v =
     (if v \<noteq> A \<and> 0 < mutualCount fs A v then JNumber (int (mutualCount fs A v)) else JNull)"

section \<open>Example states\<close>

text \<open>
  Concrete stores on which the procedures are evaluated: the scenarios of the test file
  \<^verbatim>\<open>friendship-request.test.ts\<close> (user A is 1, B is 2, and so on) and a few small ones.
\<close>

definition example_user :: "int \<Rightarrow> user_row" where
  "example_user i = \<lparr>id' = i, fullName = ''user'', phoneNumber = ''555''\<rparr>"

definition edge :: "int \<Rightarrow> int \<Rightarrow> FriendshipStatus \<Rightarrow> friendship_row" where
  "edge a b s = \<lparr>userId = a, friendUserId = b, status = s\<rparr>"

definition accepted_pair :: "int \<Rightarrow> int \<Rightarrow> friendship_row list" where
  "accepted_pair a b = [edge a b accepted, edge b a accepted]"

text \<open>B, C, D and E are friends of A (Question 4, Scenario 1).\<close>

definition star_graph :: Database where
  "star_graph = \<lparr>users = map example_user [1, 2, 3, 4, 5],
                  friendships = accepted_pair 2 1 @ accepted_pair 3 1 @ accepted_pair 4 1 @ accepted_pair 5 1\<rparr>"

text \<open>A friends B, C, D, E; B friends A, C, D (Question 5, Scenario 1).\<close>

definition asymmetric_web :: Database where
  "asymmetric_web = \<lparr>users = map example_user [1, 2, 3, 4, 5],
                      friendships = accepted_pair 1 2 @ accepted_pair 1 3 @ accepted_pair 1 4 @ accepted_pair 1 5
                                    @ accepted_pair 2 3 @ accepted_pair 2 4\<rparr>"

text \<open>A friends B, C, D, E; B friends A, C, D, E (Question 5, Scenario 2).\<close>

definition denser_web :: Database where
  "denser_web = \<lparr>users = map example_user [1, 2, 3, 4, 5],
                  friendships = accepted_pair 1 2 @ accepted_pair 1 3 @ accepted_pair 1 4 @ accepted_pair 1 5
                                @ accepted_pair 2 3 @ accepted_pair 2 4 @ accepted_pair 2 5\<rparr>"

text \<open>Friendships 1-2, 1-3, 2-3 and 3-4: user 4 is a friend of a friend of user 1.\<close>

definition chain :: Database where
  "chain = \<lparr>users = map example_user [1, 2, 3, 4],
             friendships = accepted_pair 1 2 @ accepted_pair 1 3 @ accepted_pair 2 3 @ accepted_pair 3 4\<rparr>"

text \<open>States that violate the symmetry invariant: an accepted edge without its reverse.\<close>

definition one_way :: Database where
  "one_way = \<lparr>users = map example_user [1, 2], friendships = [edge 1 2 accepted]\<rparr>"

definition half_accepted :: Database where
  "half_accepted = \<lparr>users = map example_user [1, 2, 3],
                     friendships = accepted_pair 1 2 @ [edge 1 3 accepted, edge 3 1 requested]\<rparr>"

text \<open>A symmetric state with an accepted self-edge of user 1.\<close>

definition self_loop :: Database where
  "self_loop = \<lparr>users = map example_user [1, 2],
                 friendships = edge 1 1 accepted # accepted_pair 1 2\<rparr>"

section \<open>Properties of the relational operators\<close>

lemma set_innerJoin:
  "set (innerJoin xs ys on) = {(x, y). x \<in> set xs \<and> y \<in> set ys \<and> on x y}"
  by (auto simp: innerJoin_def)

lemma innerJoin_mem:
  "(x, y) \<in> set (innerJoin xs ys on) \<longleftrightarrow> x \<in> set xs \<and> y \<in> set ys \<and> on x y"
  by (simp add: set_innerJoin)

lemma innerJoin_Nil [simp]: "innerJoin [] ys on = []"
  by (simp add: innerJoin_def)

lemma innerJoin_Cons:
  "innerJoin (x # xs) ys on = map (Pair x) (filter (on x) ys) @ innerJoin xs ys on"
  by (simp add: innerJoin_def)

lemma filter_innerJoin:
  "filter (\<lambda>(x, y). P x y) (innerJoin xs ys on) = innerJoin xs ys (\<lambda>x y. on x y \<and> P x y)"
  unfolding innerJoin_def
  by (induction xs) (simp_all add: filter_map comp_def)

lemma filter_innerJoin_left:
  "filter (\<lambda>(x, y). P x) (innerJoin xs ys on) = innerJoin (filter P xs) ys on"
  by (induction xs) (simp_all add: innerJoin_Cons filter_map comp_def)

lemma innerJoin_filter_filter:
  "innerJoin (filter P xs) (filter Q ys) on = innerJoin xs ys (\<lambda>x y. P x \<and> Q y \<and> on x y)"
proof (induction xs)
  case Nil
  show ?case by simp
next
  case (Cons x xs)
  have "filter (on x) (filter Q ys) = filter (\<lambda>y. Q y \<and> on x y) ys"
    by simp
  with Cons show ?case
    by (simp add: innerJoin_Cons)
qed

lemma length_innerJoin:
  "length (innerJoin xs ys on) = sum_list (map (\<lambda>x. length (filter (on x) ys)) xs)"
  unfolding innerJoin_def by (simp add: length_concat comp_def)

lemma length_innerJoin_map:
  "length (innerJoin (map p xs) (map q ys) on)
   = length (innerJoin xs ys (\<lambda>x y. on (p x) (q y)))"
  by (induction xs) (simp_all add: innerJoin_Cons filter_map comp_def)

lemma sum_list_indicator:
  "sum_list (map (\<lambda>y. if P y then 1 else 0) ys) = length (filter P ys)"
  by (induction ys) simp_all

lemma length_innerJoin_swap:
  "length (innerJoin xs ys on) = length (innerJoin ys xs (\<lambda>y x. on x y))"
proof (induction xs)
  case Nil
  show ?case by (simp add: length_innerJoin)
next
  case (Cons x xs)
  have "length (innerJoin ys (x # xs) (\<lambda>y x. on x y))
        = sum_list (map (\<lambda>y. (if on x y then 1 else 0) + length (filter (\<lambda>x. on x y) xs)) ys)"
    unfolding length_innerJoin by (rule arg_cong[where f = sum_list]) simp
  also have "\<dots> = length (filter (on x) ys) + length (innerJoin ys xs (\<lambda>y x. on x y))"
    by (simp add: sum_list_addf sum_list_indicator length_innerJoin)
  finally show ?case using Cons.IH by (simp add: length_innerJoin)
qed

lemma leftJoin_Nil [simp]: "leftJoin [] ys on = []"
  by (simp add: leftJoin_def)

lemma leftJoin_Cons:
  "leftJoin (x # xs) ys on =
     (if filter (on x) ys = [] then [(x, None)] else map (\<lambda>y. (x, Some y)) (filter (on x) ys))
     @ leftJoin xs ys on"
  by (simp add: leftJoin_def)

lemma set_leftJoin:
  "set (leftJoin xs ys on) =
     {(x, Some y) | x y. x \<in> set xs \<and> y \<in> set ys \<and> on x y}
     \<union> {(x, None) | x. x \<in> set xs \<and> (\<forall>y \<in> set ys. \<not> on x y)}"
  unfolding leftJoin_def by (auto simp: filter_empty_conv)

lemma leftJoin_mem:
  "(x, mo) \<in> set (leftJoin xs ys on) \<longleftrightarrow>
     x \<in> set xs \<and> (case mo of None \<Rightarrow> \<forall>y \<in> set ys. \<not> on x y | Some y \<Rightarrow> y \<in> set ys \<and> on x y)"
  by (cases mo) (simp_all add: set_leftJoin)

lemma fst_set_leftJoin: "fst ` set (leftJoin xs ys on) = set xs"
proof (induction xs)
  case Nil
  show ?case by simp
next
  case (Cons x xs)
  have "fst ` set (if filter (on x) ys = [] then [(x, None)]
                   else map (\<lambda>y. (x, Some y)) (filter (on x) ys)) = {x}"
    by (cases "filter (on x) ys") (auto simp: image_iff)
  with Cons show ?case
    by (simp add: leftJoin_Cons image_Un)
qed

lemma filter_leftJoin_left:
  "filter (\<lambda>(x, m). P x) (leftJoin xs ys on) = leftJoin (filter P xs) ys on"
  by (induction xs) (simp_all add: leftJoin_Cons filter_map comp_def)

lemma leftJoin_constant_partner:
  assumes "\<And>x. x \<in> set xs \<Longrightarrow> filter (on x) ys = ms"
  shows "leftJoin xs ys on =
           (if ms = [] then map (\<lambda>x. (x, None)) xs
            else concat (map (\<lambda>x. map (\<lambda>y. (x, Some y)) ms) xs))"
  using assms by (induction xs) (simp_all add: leftJoin_Cons)

lemma remdups_const:
  "set xs \<subseteq> {k} \<Longrightarrow> remdups xs = (if xs = [] then [] else [k])"
proof (induction xs)
  case Nil
  show ?case by simp
next
  case (Cons a xs)
  then have a: "a = k" and sub: "set xs \<subseteq> {k}" by auto
  show ?case
  proof (cases "xs = []")
    case True
    with a show ?thesis by simp
  next
    case False
    then obtain y where "y \<in> set xs" by (cases xs) auto
    with sub have "k \<in> set xs" by auto
    with a Cons.IH[OF sub] False show ?thesis by simp
  qed
qed

lemma groupBy_const:
  assumes "\<forall>r \<in> set rows. key r = k"
  shows "groupBy key rows = (if rows = [] then [] else [(k, rows)])"
proof -
  have "remdups (map key rows) = (if rows = [] then [] else [k])"
  proof -
    from assms have "set (map key rows) \<subseteq> {k}" by auto
    from remdups_const[OF this] show ?thesis by simp
  qed
  moreover have "filter (\<lambda>r. key r = k) rows = rows"
    using assms by simp
  ultimately show ?thesis
    by (simp add: groupBy_def)
qed

lemma filter_groupBy:
  "filter (\<lambda>(k, g). P k) (groupBy key rows) = groupBy key (filter (\<lambda>r. P (key r)) rows)"
proof -
  have "filter (\<lambda>(k, g). P k) (groupBy key rows)
        = map (\<lambda>k. (k, filter (\<lambda>r. key r = k) rows)) (remdups (map key (filter (\<lambda>r. P (key r)) rows)))"
    by (simp add: groupBy_def filter_map comp_def remdups_filter[symmetric])
  also have "\<dots> = groupBy key (filter (\<lambda>r. P (key r)) rows)"
    unfolding groupBy_def
    by (rule map_cong) (auto intro: filter_cong)
  finally show ?thesis .
qed

lemma distinct_map_filter_singleton:
  "distinct (map f xs) \<Longrightarrow> x \<in> set xs \<Longrightarrow> filter (\<lambda>y. f y = f x) xs = [x]"
proof (induction xs)
  case Nil
  then show ?case by simp
next
  case (Cons a xs)
  show ?case
  proof (cases "a = x")
    case True
    from Cons.prems(1) have "f a \<notin> f ` set xs" by simp
    then have "\<forall>y \<in> set xs. f y \<noteq> f a" by (metis imageI)
    then have "filter (\<lambda>y. f y = f a) xs = []" by (simp add: filter_empty_conv)
    with True show ?thesis by simp
  next
    case False
    with Cons.prems have x: "x \<in> set xs" and d: "distinct (map f xs)" by auto
    from Cons.prems(1) have "f a \<notin> f ` set xs" by simp
    with x have "f a \<noteq> f x" by (metis imageI)
    with Cons.IH[OF d x] show ?thesis by simp
  qed
qed

section \<open>The schemas and the parse of the result rows\<close>

lemma IdSchema_Some: "IdSchema v = Some i \<longleftrightarrow> v = JNumber i \<and> 1 \<le> i"
  by (cases v) (auto simp: IdSchema_def)

lemma CountSchema_Some: "CountSchema v = Some n \<longleftrightarrow> v = JNumber n \<and> 0 \<le> n"
  by (cases v) (auto simp: CountSchema_def)

lemma NonEmptyStringSchema_Some: "NonEmptyStringSchema v = Some s \<longleftrightarrow> v = JString s \<and> s \<noteq> []"
  by (cases v) (auto simp: NonEmptyStringSchema_def)

lemma mk_row_sel [simp]:
  "row_id (mk_row u t m) = JNumber (id' u)"
  "row_fullName (mk_row u t m) = JString (fullName u)"
  "row_phoneNumber (mk_row u t m) = JString (phoneNumber u)"
  "row_totalFriendCount (mk_row u t m) = JNumber t"
  "row_mutualFriendCount (mk_row u t m) = m"
  by (simp_all add: mk_row_def)

lemma parseFriendRecord_cases:
  "parseFriendRecord r = Inl ZodError \<or>
   (\<exists>i n p t m. IdSchema (row_id r) = Some i \<and> NonEmptyStringSchema (row_fullName r) = Some n
      \<and> NonEmptyStringSchema (row_phoneNumber r) = Some p \<and> CountSchema (row_totalFriendCount r) = Some t
      \<and> CountSchema (row_mutualFriendCount r) = Some m
      \<and> parseFriendRecord r = Inr \<lparr>friend_id = i, friend_fullName = n, friend_phoneNumber = p,
               totalFriendCount = t, mutualFriendCount = m\<rparr>)"
  unfolding parseFriendRecord_def
  by (cases "IdSchema (row_id r)"; cases "NonEmptyStringSchema (row_fullName r)";
      cases "NonEmptyStringSchema (row_phoneNumber r)"; cases "CountSchema (row_totalFriendCount r)";
      cases "CountSchema (row_mutualFriendCount r)") simp_all

lemma parseFriendRecord_not_NOT_FOUND: "parseFriendRecord r \<noteq> Inl NOT_FOUND"
  using parseFriendRecord_cases[of r] by auto

lemma parseFriendRecord_InrD:
  assumes "parseFriendRecord r = Inr x"
  shows "row_id r = JNumber (friend_id x) \<and> 1 \<le> friend_id x
       \<and> row_fullName r = JString (friend_fullName x) \<and> friend_fullName x \<noteq> []
       \<and> row_phoneNumber r = JString (friend_phoneNumber x) \<and> friend_phoneNumber x \<noteq> []
       \<and> row_totalFriendCount r = JNumber (totalFriendCount x) \<and> 0 \<le> totalFriendCount x
       \<and> row_mutualFriendCount r = JNumber (mutualFriendCount x) \<and> 0 \<le> mutualFriendCount x"
  using parseFriendRecord_cases[of r] assms
  by (auto simp: IdSchema_Some CountSchema_Some NonEmptyStringSchema_Some)

lemma parseFriendRecord_mk_row:
  assumes "valid_user u" "0 \<le> t" "0 \<le> n"
  shows "parseFriendRecord (mk_row u t (JNumber n)) =
           Inr \<lparr>friend_id = id' u, friend_fullName = fullName u, friend_phoneNumber = phoneNumber u,
                totalFriendCount = t, mutualFriendCount = n\<rparr>"
  using assms
  by (simp add: parseFriendRecord_def mk_row_def valid_user_def IdSchema_def CountSchema_def
        NonEmptyStringSchema_def)

lemma parseFriendRecord_mk_row_null: "parseFriendRecord (mk_row u t JNull) = Inl ZodError"
  using parseFriendRecord_cases[of "mk_row u t JNull"]
  by (auto simp: mk_row_def CountSchema_Some)

lemma parseFriendRecords_Inr:
  "parseFriendRecords rows = Inr rs \<Longrightarrow>
     list_all2 (\<lambda>row x. parseFriendRecord row = Inr x) rows rs"
  by (induction rows arbitrary: rs) (auto split: sum.splits)

lemma parseFriendRecords_Inr_result:
  assumes "parseFriendRecords rows = Inr rs" "x \<in> set rs"
  shows "\<exists>row \<in> set rows. parseFriendRecord row = Inr x"
proof -
  from assms(2) obtain i where i: "i < length rs" "rs ! i = x"
    by (auto simp: in_set_conv_nth)
  from parseFriendRecords_Inr[OF assms(1)]
  have len: "length rows = length rs" and "parseFriendRecord (rows ! i) = Inr (rs ! i)"
    using i by (auto simp: list_all2_conv_all_nth)
  with i show ?thesis by (metis nth_mem)
qed

lemma parseFriendRecords_Inr_row:
  assumes "parseFriendRecords rows = Inr rs" "row \<in> set rows"
  shows "\<exists>x \<in> set rs. parseFriendRecord row = Inr x"
proof -
  from assms(2) obtain i where i: "i < length rows" "rows ! i = row"
    by (auto simp: in_set_conv_nth)
  from parseFriendRecords_Inr[OF assms(1)]
  have len: "length rows = length rs" and "parseFriendRecord (rows ! i) = Inr (rs ! i)"
    using i by (auto simp: list_all2_conv_all_nth)
  with i show ?thesis by (metis nth_mem)
qed

lemma parseFriendRecords_ids:
  assumes p: "parseFriendRecords rows = Inr rs"
    and rows: "set rows = {mk_row u (t u) (c u) | u. P u}"
  shows "friend_id ` set rs = {id' u | u. P u}"
proof (rule set_eqI, rule iffI)
  fix v assume "v \<in> friend_id ` set rs"
  then obtain x where x: "x \<in> set rs" and v: "v = friend_id x" by blast
  from parseFriendRecords_Inr_result[OF p x] obtain row where "row \<in> set rows"
    and pr: "parseFriendRecord row = Inr x" by blast
  with rows obtain u where u: "P u" and row: "row = mk_row u (t u) (c u)" by blast
  from parseFriendRecord_InrD[OF pr] row have "friend_id x = id' u" by simp
  with u v show "v \<in> {id' u | u. P u}" by blast
next
  fix v assume "v \<in> {id' u | u. P u}"
  then obtain u where u: "P u" and v: "v = id' u" by blast
  from u rows have "mk_row u (t u) (c u) \<in> set rows" by blast
  from parseFriendRecords_Inr_row[OF p this] obtain x where x: "x \<in> set rs"
    and pr: "parseFriendRecord (mk_row u (t u) (c u)) = Inr x" by blast
  from parseFriendRecord_InrD[OF pr] have "friend_id x = id' u" by simp
  with x v show "v \<in> friend_id ` set rs" by force
qed

lemma parseFriendRecords_mono:
  assumes p: "parseFriendRecords rows = Inr rs" and p1: "parseFriendRecords rows1 = Inr rs1"
    and sub: "set rows \<subseteq> set rows1"
  shows "set rs \<subseteq> set rs1"
proof
  fix x assume "x \<in> set rs"
  from parseFriendRecords_Inr_result[OF p this] obtain row where row: "row \<in> set rows"
    and pr: "parseFriendRecord row = Inr x" by blast
  from row sub have "row \<in> set rows1" by blast
  from parseFriendRecords_Inr_row[OF p1 this] pr show "x \<in> set rs1" by auto
qed

section \<open>The aggregators in closed form\<close>

lemma accepted_edge_iff:
  "accepted_edge fs u v \<longleftrightarrow> (\<exists>f \<in> set fs. userId f = u \<and> friendUserId f = v \<and> status f = accepted)"
  by (simp add: accepted_edge_def list_ex_iff)

lemma accepted_symmetric_iff:
  "accepted_symmetric fs \<longleftrightarrow>
     (\<forall>f \<in> set fs. status f = accepted \<longrightarrow> accepted_edge fs (friendUserId f) (userId f))"
  by (simp add: accepted_symmetric_def list_all_iff)

lemma totalCount_eq:
  "totalCount fs u = length (filter (\<lambda>f. userId f = u \<and> status f = accepted) fs)"
  unfolding totalCount_def by (simp add: conj_commute)

lemma totalCount_pos: "0 < totalCount fs u \<longleftrightarrow> (\<exists>f \<in> set fs. userId f = u \<and> status f = accepted)"
proof -
  have "0 < totalCount fs u \<longleftrightarrow> filter (\<lambda>f. userId f = u \<and> status f = accepted) fs \<noteq> []"
    unfolding totalCount_eq by simp
  also have "\<dots> \<longleftrightarrow> (\<exists>f \<in> set fs. userId f = u \<and> status f = accepted)"
    by (simp add: filter_empty_conv)
  finally show ?thesis .
qed

lemma has_accepted_outgoing:
  "list_ex (\<lambda>f. userId f = v \<and> status f = accepted) fs \<longleftrightarrow> 0 < totalCount fs v"
  by (simp add: totalCount_pos list_ex_iff)

subsection \<open>\<^verbatim>\<open>userTotalFriendCount\<close>: at most one row per user\<close>

lemma userTotalFriendCount_filter:
  "filter (\<lambda>t. total_userId t = u) (userTotalFriendCount fs) =
     (if totalCount fs u = 0 then []
      else [\<lparr>total_userId = u, total_totalFriendCount = int (totalCount fs u)\<rparr>])"
proof -
  let ?acc = "filter (\<lambda>f. status f = accepted) fs"
  have "filter (\<lambda>t. total_userId t = u) (userTotalFriendCount fs)
        = map (\<lambda>(k, g). \<lparr>total_userId = k, total_totalFriendCount = int (length g)\<rparr>)
            (filter (\<lambda>(k, g). k = u) (groupBy userId ?acc))"
    unfolding userTotalFriendCount_def filter_map
    by (rule arg_cong[where f = "map _"], rule filter_cong) auto
  also have "filter (\<lambda>(k, g). k = u) (groupBy userId ?acc)
        = groupBy userId (filter (\<lambda>f. userId f = u) ?acc)"
    by (rule filter_groupBy)
  also have "\<dots> = (if filter (\<lambda>f. userId f = u) ?acc = [] then []
                    else [(u, filter (\<lambda>f. userId f = u) ?acc)])"
    by (rule groupBy_const) simp
  finally show ?thesis by (simp add: totalCount_def)
qed

lemma total_mem:
  "t \<in> set (userTotalFriendCount fs) \<and> total_userId t = k \<longleftrightarrow>
     0 < totalCount fs k \<and> t = \<lparr>total_userId = k, total_totalFriendCount = int (totalCount fs k)\<rparr>"
proof -
  have "t \<in> set (userTotalFriendCount fs) \<and> total_userId t = k
        \<longleftrightarrow> t \<in> set (filter (\<lambda>t. total_userId t = k) (userTotalFriendCount fs))"
    by simp
  also have "\<dots> \<longleftrightarrow> 0 < totalCount fs k
        \<and> t = \<lparr>total_userId = k, total_totalFriendCount = int (totalCount fs k)\<rparr>"
    unfolding userTotalFriendCount_filter by simp
  finally show ?thesis .
qed

lemma total_mem':
  "t \<in> set (userTotalFriendCount fs) \<and> total_userId t = k \<longleftrightarrow>
     0 < totalCount fs k \<and> t = total_of fs k"
  unfolding total_of_def by (rule total_mem)

subsection \<open>\<^verbatim>\<open>userMutualFriendCount\<close>: at most one row\<close>

lemma userMutualFriendCount_rows_key:
  "r \<in> set (userMutualFriendCount_rows fs u v) \<Longrightarrow> (case r of (f1, f2) \<Rightarrow> (userId f1, userId f2)) = (v, u)"
  by (auto simp: userMutualFriendCount_rows_def)

lemma userMutualFriendCount_eq:
  "userMutualFriendCount fs u v =
     (if mutualCount fs u v = 0 then []
      else [\<lparr>mutual_user = v, mutual_friend = u,
             mutual_mutualFriendCount = int (mutualCount fs u v)\<rparr>])"
proof -
  have "groupBy (\<lambda>(f1, f2). (userId f1, userId f2)) (userMutualFriendCount_rows fs u v)
        = (if userMutualFriendCount_rows fs u v = [] then []
           else [((v, u), userMutualFriendCount_rows fs u v)])"
    by (rule groupBy_const) (auto dest: userMutualFriendCount_rows_key)
  then show ?thesis
    by (simp add: userMutualFriendCount_def mutualCount_def)
qed

lemma userMutualFriendCount_rows_innerJoin:
  "userMutualFriendCount_rows fs u v =
     innerJoin fs fs (\<lambda>f1 f2. friendUserId f1 = friendUserId f2 \<and> status f1 = accepted
                             \<and> status f2 = accepted \<and> userId f1 = v \<and> userId f2 = u)"
  unfolding userMutualFriendCount_rows_def filter_innerJoin
  by (rule arg_cong[where f = "innerJoin fs fs"]) auto

lemma userMutualFriendCount_rows_mem:
  "(f1, f2) \<in> set (userMutualFriendCount_rows fs u v) \<longleftrightarrow>
     f1 \<in> set fs \<and> f2 \<in> set fs \<and> friendUserId f1 = friendUserId f2 \<and> status f1 = accepted
     \<and> status f2 = accepted \<and> userId f1 = v \<and> userId f2 = u"
  unfolding userMutualFriendCount_rows_innerJoin innerJoin_mem by simp

lemma mutualCount_swap: "mutualCount fs u v = mutualCount fs v u"
proof -
  let ?P = "\<lambda>a b (f1 :: friendship_row) (f2 :: friendship_row).
              friendUserId f1 = friendUserId f2 \<and> status f1 = accepted
              \<and> status f2 = accepted \<and> userId f1 = b \<and> userId f2 = a"
  have sw: "(\<lambda>f2 f1. ?P u v f1 f2) = ?P v u"
    by (intro ext) auto
  have "length (innerJoin fs fs (?P u v)) = length (innerJoin fs fs (\<lambda>f2 f1. ?P u v f1 f2))"
    by (rule length_innerJoin_swap)
  then have "length (innerJoin fs fs (?P u v)) = length (innerJoin fs fs (?P v u))"
    unfolding sw .
  then show ?thesis
    unfolding mutualCount_def userMutualFriendCount_rows_innerJoin .
qed

lemma mutual_single_mem:
  "m \<in> set (userMutualFriendCount fs u v) \<longleftrightarrow>
     0 < mutualCount fs u v \<and> m = \<lparr>mutual_user = v, mutual_friend = u,
             mutual_mutualFriendCount = int (mutualCount fs u v)\<rparr>"
  unfolding userMutualFriendCount_eq by simp

lemma third_party_rows_eq:
  assumes "\<not> accepted_edge fs A A" "\<not> accepted_edge fs B B"
  shows "third_party_rows fs A B = userMutualFriendCount_rows fs A B"
  unfolding third_party_rows_def
proof (rule filter_True, clarify)
  fix f1 f2
  assume "(f1, f2) \<in> set (userMutualFriendCount_rows fs A B)"
  then have m: "f1 \<in> set fs" "f2 \<in> set fs" "friendUserId f1 = friendUserId f2" "status f1 = accepted"
     "status f2 = accepted" "userId f1 = B" "userId f2 = A"
    unfolding userMutualFriendCount_rows_mem by simp_all
  from assms(1) m have "friendUserId f1 \<noteq> A"
    unfolding accepted_edge_iff by metis
  moreover from assms(2) m have "friendUserId f1 \<noteq> B"
    unfolding accepted_edge_iff by metis
  ultimately show "friendUserId f1 \<noteq> A \<and> friendUserId f1 \<noteq> B" ..
qed

lemma single_partner_iff:
  "(case mo of None \<Rightarrow> \<forall>m \<in> set (userMutualFriendCount fs A B). mutual_user m \<noteq> v
             | Some m \<Rightarrow> m \<in> set (userMutualFriendCount fs A B) \<and> mutual_user m = v)
   \<longleftrightarrow> mo = single_partner fs A B v"
proof (cases mo)
  case None
  then show ?thesis
    by (simp add: userMutualFriendCount_eq single_partner_def)
next
  case (Some m)
  then show ?thesis
    by (auto simp: userMutualFriendCount_eq single_partner_def)
qed

lemma coalesce_single_partner:
  "coalesce (column mutual_mutualFriendCount (single_partner fs A B B)) 0
   = JNumber (int (mutualCount fs A B))"
  by (simp add: single_partner_def coalesce_def column_def)

subsection \<open>\<^verbatim>\<open>mutualFriendsCountAll\<close>: its row for a user is the single-pair row\<close>

lemma mutualFriendsCountAll_rows_filter:
  "filter (\<lambda>(f1, f2). userId f1 = v) (mutualFriendsCountAll_rows fs u) =
     (if v = u then [] else userMutualFriendCount_rows fs u v)"
proof -
  have "filter (\<lambda>(f1, f2). userId f1 = v) (mutualFriendsCountAll_rows fs u)
        = innerJoin fs fs (\<lambda>f1 f2. ((friendUserId f1 = friendUserId f2
                                  \<and> userId f1 \<noteq> userId f2 \<and> userId f2 = u) \<and> status f1 = accepted)
                                  \<and> status f2 = accepted \<and> userId f1 = v)"
    unfolding mutualFriendsCountAll_rows_def filter_innerJoin
    by (simp add: conj_assoc)
  also have "\<dots> = (if v = u then [] else userMutualFriendCount_rows fs u v)"
  proof (cases "v = u")
    case True
    then have "(\<lambda>f1 f2. ((friendUserId f1 = friendUserId f2
                                  \<and> userId f1 \<noteq> userId f2 \<and> userId f2 = u) \<and> status f1 = accepted)
                                  \<and> status f2 = accepted \<and> userId f1 = v) = (\<lambda>f1 f2. False)"
      by (intro ext) auto
    then show ?thesis using True by (simp add: innerJoin_def)
  next
    case False
    then show ?thesis
      unfolding userMutualFriendCount_rows_innerJoin
      by (auto intro!: arg_cong[where f = "innerJoin fs fs"] ext)
  qed
  finally show ?thesis .
qed

lemma mutualFriendsCountAll_filter:
  "filter (\<lambda>m. mutual_user m = v) (mutualFriendsCountAll fs u) =
     (if v = u \<or> mutualCount fs u v = 0 then []
      else [\<lparr>mutual_user = v, mutual_friend = u,
             mutual_mutualFriendCount = int (mutualCount fs u v)\<rparr>])"
proof -
  let ?key = "\<lambda>(f1, f2). (userId f1, userId f2 :: int)"
  let ?mk = "\<lambda>(k, g). \<lparr>mutual_user = fst k, mutual_friend = snd k,
                     mutual_mutualFriendCount = int (length (g :: (friendship_row \<times> friendship_row) list))\<rparr>"
  have "filter (\<lambda>m. mutual_user m = v) (mutualFriendsCountAll fs u)
        = map ?mk (filter (\<lambda>(k, g). fst k = v) (groupBy ?key (mutualFriendsCountAll_rows fs u)))"
    unfolding mutualFriendsCountAll_def filter_map
    by (rule arg_cong[where f = "map _"], rule filter_cong) auto
  also have "filter (\<lambda>(k, g). fst k = v) (groupBy ?key (mutualFriendsCountAll_rows fs u))
        = groupBy ?key (filter (\<lambda>r. fst (?key r) = v) (mutualFriendsCountAll_rows fs u))"
    by (rule filter_groupBy)
  also have "filter (\<lambda>r. fst (?key r) = v) (mutualFriendsCountAll_rows fs u)
        = filter (\<lambda>(f1, f2). userId f1 = v) (mutualFriendsCountAll_rows fs u)"
    by (rule filter_cong) auto
  also have "\<dots> = (if v = u then [] else userMutualFriendCount_rows fs u v)"
    by (rule mutualFriendsCountAll_rows_filter)
  also have "groupBy ?key (if v = u then [] else userMutualFriendCount_rows fs u v)
        = (if v = u \<or> userMutualFriendCount_rows fs u v = [] then []
           else [((v, u), userMutualFriendCount_rows fs u v)])"
  proof (cases "v = u")
    case True
    then show ?thesis by (simp add: groupBy_def)
  next
    case False
    have "groupBy ?key (userMutualFriendCount_rows fs u v)
          = (if userMutualFriendCount_rows fs u v = [] then []
             else [((v, u), userMutualFriendCount_rows fs u v)])"
      by (rule groupBy_const) (auto dest: userMutualFriendCount_rows_key)
    with False show ?thesis by simp
  qed
  finally show ?thesis by (auto simp: mutualCount_def)
qed

lemma mutual_all_mem:
  "m \<in> set (mutualFriendsCountAll fs u) \<and> mutual_user m = v \<longleftrightarrow>
     v \<noteq> u \<and> 0 < mutualCount fs u v \<and> m = \<lparr>mutual_user = v, mutual_friend = u,
             mutual_mutualFriendCount = int (mutualCount fs u v)\<rparr>"
proof -
  have "m \<in> set (mutualFriendsCountAll fs u) \<and> mutual_user m = v
        \<longleftrightarrow> m \<in> set (filter (\<lambda>m. mutual_user m = v) (mutualFriendsCountAll fs u))"
    by simp
  also have "\<dots> \<longleftrightarrow> v \<noteq> u \<and> 0 < mutualCount fs u v \<and> m = \<lparr>mutual_user = v, mutual_friend = u,
             mutual_mutualFriendCount = int (mutualCount fs u v)\<rparr>"
    unfolding mutualFriendsCountAll_filter by simp
  finally show ?thesis .
qed

lemma mutual_all_none:
  "(\<forall>m \<in> set (mutualFriendsCountAll fs u). mutual_user m \<noteq> v) \<longleftrightarrow>
     (v = u \<or> mutualCount fs u v = 0)"
proof -
  have "(\<forall>m \<in> set (mutualFriendsCountAll fs u). mutual_user m \<noteq> v)
        \<longleftrightarrow> filter (\<lambda>m. mutual_user m = v) (mutualFriendsCountAll fs u) = []"
    by (simp add: filter_empty_conv)
  also have "\<dots> \<longleftrightarrow> (v = u \<or> mutualCount fs u v = 0)"
    unfolding mutualFriendsCountAll_filter by simp
  finally show ?thesis .
qed

lemma batch_partner_iff:
  "(case mo of None \<Rightarrow> \<forall>m \<in> set (mutualFriendsCountAll fs A). mutual_user m \<noteq> v
             | Some m \<Rightarrow> m \<in> set (mutualFriendsCountAll fs A) \<and> mutual_user m = v)
   \<longleftrightarrow> mo = batch_partner fs A v"
proof (cases mo)
  case None
  then show ?thesis
    by (simp add: mutual_all_none batch_partner_def)
next
  case (Some m)
  then show ?thesis
    using mutual_all_mem[of m fs A v] by (auto simp: batch_partner_def)
qed

lemma column_batch_partner:
  "column mutual_mutualFriendCount (batch_partner fs A v) = batch_column fs A v"
  by (simp add: batch_partner_def batch_column_def column_def)

lemma batch_column_JNumber:
  "batch_column fs A v = JNumber n \<Longrightarrow> n = int (mutualCount fs A v) \<and> v \<noteq> A"
  by (auto simp: batch_column_def split: if_splits)

subsection \<open>The common table expressions of \<^verbatim>\<open>getAll1\<close>\<close>

lemma userFriendships_fst: "f1 \<in> set (userFriendships fs A) \<Longrightarrow> fst f1 = A"
  by (auto simp: userFriendships_def)

lemma cte_rows_length:
  "length (filter (\<lambda>(f1, f2). fst f2 = v)
     (innerJoin (userFriendships fs A) (friendsFriendships fs A) (\<lambda>f1 f2. snd f1 = snd f2)))
   = (if v = A then 0 else mutualCount fs A v)"
proof -
  let ?P = "\<lambda>(f1 :: friendship_row) (f2 :: friendship_row).
              (status f1 = accepted \<and> userId f1 = A) \<and> (status f2 = accepted \<and> userId f2 \<noteq> A)
              \<and> friendUserId f1 = friendUserId f2 \<and> userId f2 = v"
  have "length (filter (\<lambda>(f1, f2). fst f2 = v)
     (innerJoin (userFriendships fs A) (friendsFriendships fs A) (\<lambda>f1 f2. snd f1 = snd f2)))
     = length (innerJoin fs fs ?P)"
    unfolding filter_innerJoin userFriendships_def friendsFriendships_def filter_filter
      length_innerJoin_map innerJoin_filter_filter
    by simp
  also have "\<dots> = (if v = A then 0 else mutualCount fs A v)"
  proof (cases "v = A")
    case True
    then have "?P = (\<lambda>f1 f2. False)" by (intro ext) auto
    with True show ?thesis by (simp add: innerJoin_def)
  next
    case False
    then have "?P = (\<lambda>f1 f2. friendUserId f1 = friendUserId f2 \<and> status f1 = accepted
                             \<and> status f2 = accepted \<and> userId f1 = A \<and> userId f2 = v)"
      by (intro ext) auto
    then have "length (innerJoin fs fs ?P) = mutualCount fs v A"
      unfolding mutualCount_def userMutualFriendCount_rows_innerJoin by simp
    with False show ?thesis by (simp add: mutualCount_swap[of fs v A])
  qed
  finally show ?thesis .
qed

lemma mutualFriendCount_cte_filter:
  "filter (\<lambda>m. mutual_friend m = v) (mutualFriendCount_cte fs A) =
     (case cte_partner fs A v of None \<Rightarrow> [] | Some m \<Rightarrow> [m])"
proof -
  let ?J = "innerJoin (userFriendships fs A) (friendsFriendships fs A) (\<lambda>f1 f2. snd f1 = snd f2)"
  let ?key = "\<lambda>(f1, f2). (fst f1, fst f2) :: int \<times> int"
  let ?mk = "\<lambda>(k, g). \<lparr>mutual_user = fst k, mutual_friend = snd k,
        mutual_mutualFriendCount = int (length (g :: ((int \<times> int) \<times> (int \<times> int)) list))\<rparr>"
  let ?rows = "filter (\<lambda>(f1, f2). fst f2 = v) ?J"
  have "filter (\<lambda>m. mutual_friend m = v) (mutualFriendCount_cte fs A)
        = map ?mk (filter (\<lambda>(k, g). snd k = v) (groupBy ?key ?J))"
    unfolding mutualFriendCount_cte_def filter_map
    by (rule arg_cong[where f = "map _"], rule filter_cong) auto
  also have "filter (\<lambda>(k, g). snd k = v) (groupBy ?key ?J)
        = groupBy ?key (filter (\<lambda>r. snd (?key r) = v) ?J)"
    by (rule filter_groupBy)
  also have "filter (\<lambda>r. snd (?key r) = v) ?J = ?rows"
    by (rule filter_cong) auto
  also have "groupBy ?key ?rows = (if ?rows = [] then [] else [((A, v), ?rows)])"
    by (rule groupBy_const) (auto simp: innerJoin_mem dest: userFriendships_fst)
  finally have "filter (\<lambda>m. mutual_friend m = v) (mutualFriendCount_cte fs A)
        = (if ?rows = [] then []
           else [\<lparr>mutual_user = A, mutual_friend = v, mutual_mutualFriendCount = int (length ?rows)\<rparr>])"
    by simp
  moreover have "?rows = [] \<longleftrightarrow> length ?rows = 0" by simp
  ultimately show ?thesis
    unfolding cte_rows_length by (simp add: cte_partner_def)
qed

lemma column_cte_partner:
  "column mutual_mutualFriendCount (cte_partner fs A v) = batch_column fs A v"
  by (simp add: cte_partner_def batch_column_def column_def)

lemma friendsFriendships_filter_length:
  "length (filter (\<lambda>ff. fst ff = k) (friendsFriendships fs A))
   = (if k = A then 0 else totalCount fs k)"
proof -
  have "length (filter (\<lambda>ff. fst ff = k) (friendsFriendships fs A))
        = length (filter (\<lambda>f. status f = accepted \<and> userId f \<noteq> A \<and> userId f = k) fs)"
    unfolding friendsFriendships_def filter_map by (simp add: comp_def conj_assoc)
  also have "\<dots> = (if k = A then 0 else totalCount fs k)"
  proof (cases "k = A")
    case True
    then show ?thesis by simp
  next
    case False
    then have "(\<lambda>f. status f = accepted \<and> userId f \<noteq> A \<and> userId f = k)
             = (\<lambda>f. userId f = k \<and> status f = accepted)"
      by (intro ext) auto
    then have "length (filter (\<lambda>f. status f = accepted \<and> userId f \<noteq> A \<and> userId f = k) fs)
             = totalCount fs k"
      unfolding totalCount_eq by (rule arg_cong[where f = "\<lambda>P. length (filter P fs)"])
    with False show ?thesis by simp
  qed
  finally show ?thesis .
qed

section \<open>The composed queries in closed form\<close>

subsection \<open>\<^verbatim>\<open>getById\<close> and \<^verbatim>\<open>getAll\<close>\<close>

lemma base_join_mem:
  "((u, fr), tot) \<in> set (innerJoin (innerJoin us fs (\<lambda>friends fr. friendUserId fr = id' friends))
        (userTotalFriendCount fs) (\<lambda>(friends, fr) tot. total_userId tot = id' friends))
   \<longleftrightarrow> u \<in> set us \<and> fr \<in> set fs \<and> friendUserId fr = id' u
       \<and> 0 < totalCount fs (id' u) \<and> tot = total_of fs (id' u)"
  using total_mem'[of tot fs "id' u"] by (auto simp: innerJoin_mem)

lemma getById_join_mem:
  "(((u, fr), tot), mo) \<in> set (leftJoin
       (innerJoin (innerJoin us fs (\<lambda>friends fr. friendUserId fr = id' friends))
          (userTotalFriendCount fs) (\<lambda>(friends, fr) tot. total_userId tot = id' friends))
       (userMutualFriendCount fs A B)
       (\<lambda>((friends, fr), tot) mut. mutual_user mut = id' friends))
   \<longleftrightarrow> u \<in> set us \<and> fr \<in> set fs \<and> friendUserId fr = id' u
       \<and> 0 < totalCount fs (id' u) \<and> tot = total_of fs (id' u)
       \<and> mo = single_partner fs A B (id' u)"
proof (cases mo)
  case None
  with single_partner_iff[where mo = None and fs = fs and A = A and B = B and v = "id' u"]
  show ?thesis by (simp add: leftJoin_mem base_join_mem)
next
  case (Some m)
  with single_partner_iff[where mo = "Some m" and fs = fs and A = A and B = B and v = "id' u"]
  show ?thesis by (simp add: leftJoin_mem base_join_mem)
qed

lemma getAll_join_mem:
  "(((u, fr), tot), mo) \<in> set (leftJoin
       (innerJoin (innerJoin us fs (\<lambda>friends fr. friendUserId fr = id' friends))
          (userTotalFriendCount fs) (\<lambda>(friends, fr) tot. total_userId tot = id' friends))
       (mutualFriendsCountAll fs A)
       (\<lambda>((friends, fr), tot) mut. mutual_user mut = id' friends))
   \<longleftrightarrow> u \<in> set us \<and> fr \<in> set fs \<and> friendUserId fr = id' u
       \<and> 0 < totalCount fs (id' u) \<and> tot = total_of fs (id' u)
       \<and> mo = batch_partner fs A (id' u)"
proof (cases mo)
  case None
  with batch_partner_iff[where mo = None and fs = fs and A = A and v = "id' u"]
  show ?thesis by (simp add: leftJoin_mem base_join_mem)
next
  case (Some m)
  with batch_partner_iff[where mo = "Some m" and fs = fs and A = A and v = "id' u"]
  show ?thesis by (simp add: leftJoin_mem base_join_mem)
qed

lemma getById_query_alt:
  "getById_query db A B =
     map (\<lambda>(((u, fr), tot), mo). mk_row u (total_totalFriendCount tot)
            (coalesce (column mutual_mutualFriendCount mo) 0))
       (filter (\<lambda>(((u, fr), tot), mo). status fr = accepted \<and> friendUserId fr = B \<and> userId fr = A)
          (leftJoin
             (innerJoin (innerJoin (users db) (friendships db) (\<lambda>friends fr. friendUserId fr = id' friends))
                (userTotalFriendCount (friendships db)) (\<lambda>(friends, fr) tot. total_userId tot = id' friends))
             (userMutualFriendCount (friendships db) A B)
             (\<lambda>((friends, fr), tot) mut. mutual_user mut = id' friends)))"
  unfolding getById_query_def mk_row_def
  by (simp add: case_prod_unfold conj_commute conj_left_commute)

lemma getAll_query_alt:
  "getAll_query db A =
     map (\<lambda>(((u, fr), tot), mo). mk_row u (total_totalFriendCount tot)
            (column mutual_mutualFriendCount mo))
       (filter (\<lambda>(((u, fr), tot), mo). status fr = accepted \<and> userId fr = A)
          (leftJoin
             (innerJoin (innerJoin (users db) (friendships db) (\<lambda>friends fr. friendUserId fr = id' friends))
                (userTotalFriendCount (friendships db)) (\<lambda>(friends, fr) tot. total_userId tot = id' friends))
             (mutualFriendsCountAll (friendships db) A)
             (\<lambda>((friends, fr), tot) mut. mutual_user mut = id' friends)))"
  unfolding getAll_query_def mk_row_def
  by (simp add: case_prod_unfold conj_commute conj_left_commute)

lemma getById_query_mem:
  "r \<in> set (getById_query db A B) \<longleftrightarrow>
     (\<exists>u fr tot mo. (u \<in> set (users db) \<and> fr \<in> set (friendships db) \<and> friendUserId fr = id' u
        \<and> 0 < totalCount (friendships db) (id' u) \<and> tot = total_of (friendships db) (id' u)
        \<and> mo = single_partner (friendships db) A B (id' u))
        \<and> (status fr = accepted \<and> friendUserId fr = B \<and> userId fr = A)
        \<and> r = mk_row u (total_totalFriendCount tot)
                 (coalesce (column mutual_mutualFriendCount mo) 0))"
  unfolding getById_query_alt getById_join_mem[symmetric]
  by (force simp: image_iff)

lemma getAll_query_mem:
  "r \<in> set (getAll_query db A) \<longleftrightarrow>
     (\<exists>u fr tot mo. (u \<in> set (users db) \<and> fr \<in> set (friendships db) \<and> friendUserId fr = id' u
        \<and> 0 < totalCount (friendships db) (id' u) \<and> tot = total_of (friendships db) (id' u)
        \<and> mo = batch_partner (friendships db) A (id' u))
        \<and> (status fr = accepted \<and> userId fr = A)
        \<and> r = mk_row u (total_totalFriendCount tot) (column mutual_mutualFriendCount mo))"
  unfolding getAll_query_alt getAll_join_mem[symmetric]
  by (force simp: image_iff)

lemma getById_query_set:
  "set (getById_query db A B) =
     {mk_row u (int (totalCount (friendships db) B)) (JNumber (int (mutualCount (friendships db) A B))) | u.
        u \<in> set (users db) \<and> id' u = B \<and> accepted_edge (friendships db) A B
        \<and> 0 < totalCount (friendships db) B}"
  (is "?L = ?R")
proof (rule set_eqI, rule iffI)
  fix r
  let ?fs = "friendships db"
  assume "r \<in> ?L"
  then obtain u fr where u: "u \<in> set (users db)" and fr: "fr \<in> set ?fs"
    and eq: "friendUserId fr = id' u" and pos: "0 < totalCount ?fs (id' u)"
    and w: "status fr = accepted" "friendUserId fr = B" "userId fr = A"
    and r: "r = mk_row u (total_totalFriendCount (total_of ?fs (id' u)))
                 (coalesce (column mutual_mutualFriendCount (single_partner ?fs A B (id' u))) 0)"
    unfolding getById_query_mem by blast
  from eq w have B: "id' u = B" by simp
  from fr w have "accepted_edge ?fs A B" unfolding accepted_edge_iff by blast
  moreover from r B have "r = mk_row u (int (totalCount ?fs B)) (JNumber (int (mutualCount ?fs A B)))"
    by (simp add: coalesce_single_partner total_of_def)
  ultimately show "r \<in> ?R" using u B pos by blast
next
  fix r
  let ?fs = "friendships db"
  assume "r \<in> ?R"
  then obtain u where u: "u \<in> set (users db)" and B: "id' u = B"
    and acc: "accepted_edge ?fs A B" and pos: "0 < totalCount ?fs B"
    and r: "r = mk_row u (int (totalCount ?fs B)) (JNumber (int (mutualCount ?fs A B)))"
    by blast
  from acc obtain fr where fr: "fr \<in> set ?fs" and w: "userId fr = A" "friendUserId fr = B" "status fr = accepted"
    unfolding accepted_edge_iff by blast
  from r B have r': "r = mk_row u (total_totalFriendCount (total_of ?fs (id' u)))
                 (coalesce (column mutual_mutualFriendCount (single_partner ?fs A B (id' u))) 0)"
    by (simp add: coalesce_single_partner total_of_def)
  show "r \<in> ?L"
    unfolding getById_query_mem
    using u fr w B pos r'
    by (intro exI[of _ u] exI[of _ fr] exI[of _ "total_of ?fs (id' u)"]
          exI[of _ "single_partner ?fs A B (id' u)"]) simp
qed

lemma getAll_query_set:
  "set (getAll_query db A) =
     {mk_row u (int (totalCount (friendships db) (id' u))) (batch_column (friendships db) A (id' u)) | u.
        u \<in> set (users db) \<and> accepted_edge (friendships db) A (id' u)
        \<and> 0 < totalCount (friendships db) (id' u)}"
  (is "?L = ?R")
proof (rule set_eqI, rule iffI)
  fix r
  let ?fs = "friendships db"
  assume "r \<in> ?L"
  then obtain u fr where u: "u \<in> set (users db)" and fr: "fr \<in> set ?fs"
    and eq: "friendUserId fr = id' u" and pos: "0 < totalCount ?fs (id' u)"
    and w: "status fr = accepted" "userId fr = A"
    and r: "r = mk_row u (total_totalFriendCount (total_of ?fs (id' u)))
                 (column mutual_mutualFriendCount (batch_partner ?fs A (id' u)))"
    unfolding getAll_query_mem by blast
  from fr w eq have "accepted_edge ?fs A (id' u)" unfolding accepted_edge_iff by blast
  moreover from r have "r = mk_row u (int (totalCount ?fs (id' u))) (batch_column ?fs A (id' u))"
    by (simp add: column_batch_partner total_of_def)
  ultimately show "r \<in> ?R" using u pos by blast
next
  fix r
  let ?fs = "friendships db"
  assume "r \<in> ?R"
  then obtain u where u: "u \<in> set (users db)"
    and acc: "accepted_edge ?fs A (id' u)" and pos: "0 < totalCount ?fs (id' u)"
    and r: "r = mk_row u (int (totalCount ?fs (id' u))) (batch_column ?fs A (id' u))"
    by blast
  from acc obtain fr where fr: "fr \<in> set ?fs" and w: "userId fr = A" "friendUserId fr = id' u" "status fr = accepted"
    unfolding accepted_edge_iff by blast
  from r have r': "r = mk_row u (total_totalFriendCount (total_of ?fs (id' u)))
                 (column mutual_mutualFriendCount (batch_partner ?fs A (id' u)))"
    by (simp add: column_batch_partner total_of_def)
  show "r \<in> ?L"
    unfolding getAll_query_mem
    using u fr w pos r'
    by (intro exI[of _ u] exI[of _ fr] exI[of _ "total_of ?fs (id' u)"]
          exI[of _ "batch_partner ?fs A (id' u)"]) simp
qed

subsection \<open>\<^verbatim>\<open>getAll1\<close>\<close>

lemma getAll1_group:
  assumes d: "distinct (map id' us)" and u: "u \<in> set us"
  shows "filter (\<lambda>((friends, ff), mut). id' friends = id' u)
           (leftJoin (innerJoin us (friendsFriendships fs A) (\<lambda>friends ff. fst ff = id' friends))
              (mutualFriendCount_cte fs A) (\<lambda>(friends, ff) mut. mutual_friend mut = id' friends))
         = map (\<lambda>ff. ((u, ff), cte_partner fs A (id' u)))
             (filter (\<lambda>ff. fst ff = id' u) (friendsFriendships fs A))"
proof -
  let ?FF = "friendsFriendships fs A" and ?CTE = "mutualFriendCount_cte fs A"
  let ?on1 = "\<lambda>friends (ff :: int \<times> int). fst ff = id' friends"
  let ?on2 = "\<lambda>(friends, ff :: int \<times> int) mut. mutual_friend mut = id' friends"
  let ?zs = "filter (\<lambda>ff. fst ff = id' u) ?FF"
  let ?ms = "case cte_partner fs A (id' u) of None \<Rightarrow> [] | Some m \<Rightarrow> [m]"
  have "filter (\<lambda>((friends, ff), mut). id' friends = id' u) (leftJoin (innerJoin us ?FF ?on1) ?CTE ?on2)
        = filter (\<lambda>(x, m). (\<lambda>(friends, ff). id' friends = id' u) x) (leftJoin (innerJoin us ?FF ?on1) ?CTE ?on2)"
    by (rule filter_cong) auto
  also have "\<dots> = leftJoin (filter (\<lambda>(friends, ff). id' friends = id' u) (innerJoin us ?FF ?on1)) ?CTE ?on2"
    by (rule filter_leftJoin_left)
  also have "filter (\<lambda>(friends, ff). id' friends = id' u) (innerJoin us ?FF ?on1)
        = innerJoin (filter (\<lambda>friends. id' friends = id' u) us) ?FF ?on1"
    by (rule filter_innerJoin_left)
  also have "filter (\<lambda>friends. id' friends = id' u) us = [u]"
    by (rule distinct_map_filter_singleton[OF d u])
  also have "innerJoin [u] ?FF ?on1 = map (Pair u) ?zs"
    by (simp add: innerJoin_Cons)
  also have "leftJoin (map (Pair u) ?zs) ?CTE ?on2
        = (if ?ms = [] then map (\<lambda>x. (x, None)) (map (Pair u) ?zs)
           else concat (map (\<lambda>x. map (\<lambda>y. (x, Some y)) ?ms) (map (Pair u) ?zs)))"
  proof (rule leftJoin_constant_partner)
    fix x assume "x \<in> set (map (Pair u) ?zs)"
    then obtain ff where "x = (u, ff)" by auto
    then show "filter (?on2 x) ?CTE = ?ms"
      by (simp add: mutualFriendCount_cte_filter)
  qed
  also have "\<dots> = map (\<lambda>ff. ((u, ff), cte_partner fs A (id' u))) ?zs"
    by (cases "cte_partner fs A (id' u)") (simp_all add: comp_def)
  finally show ?thesis .
qed

lemma getAll1_keys:
  "(\<lambda>((friends, ff), mut). id' friends) `
     set (leftJoin (innerJoin us (friendsFriendships fs A) (\<lambda>friends ff. fst ff = id' friends))
              (mutualFriendCount_cte fs A) (\<lambda>(friends, ff) mut. mutual_friend mut = id' friends))
   = {id' u | u. u \<in> set us \<and> id' u \<noteq> A \<and> 0 < totalCount fs (id' u)}"
proof -
  let ?FF = "friendsFriendships fs A"
  let ?main = "leftJoin (innerJoin us ?FF (\<lambda>friends ff. fst ff = id' friends))
              (mutualFriendCount_cte fs A) (\<lambda>(friends, ff) mut. mutual_friend mut = id' friends)"
  have ex: "(\<exists>ff \<in> set ?FF. fst ff = k) \<longleftrightarrow> k \<noteq> A \<and> 0 < totalCount fs k" for k
  proof -
    have "(\<exists>ff \<in> set ?FF. fst ff = k) \<longleftrightarrow> filter (\<lambda>ff. fst ff = k) ?FF \<noteq> []"
      by (simp add: filter_empty_conv)
    also have "\<dots> \<longleftrightarrow> 0 < length (filter (\<lambda>ff. fst ff = k) ?FF)" by simp
    also have "\<dots> \<longleftrightarrow> k \<noteq> A \<and> 0 < totalCount fs k"
      unfolding friendsFriendships_filter_length by simp
    finally show ?thesis .
  qed
  have "(\<lambda>((friends, ff), mut). id' friends) ` set ?main = (\<lambda>(friends, ff). id' friends) ` fst ` set ?main"
    by (force simp: image_iff)
  also have "\<dots> = (\<lambda>(friends, ff). id' friends) ` set (innerJoin us ?FF (\<lambda>friends ff. fst ff = id' friends))"
    unfolding fst_set_leftJoin ..
  also have "\<dots> = {id' u | u. u \<in> set us \<and> (\<exists>ff \<in> set ?FF. fst ff = id' u)}"
    unfolding set_innerJoin by (force simp: image_iff)
  also have "\<dots> = {id' u | u. u \<in> set us \<and> id' u \<noteq> A \<and> 0 < totalCount fs (id' u)}"
    unfolding ex ..
  finally show ?thesis .
qed

lemma getAll1_query_alt:
  "getAll1_query db A =
     concat (map (\<lambda>(k, g). case g of [] \<Rightarrow> []
                  | ((friends, ff), mut) # _ \<Rightarrow>
                      [mk_row friends (int (length g)) (column mutual_mutualFriendCount mut)])
       (groupBy (\<lambda>((friends, ff), mut). id' friends)
          (leftJoin
            (innerJoin (users db) (friendsFriendships (friendships db) A)
               (\<lambda>friends ff. fst ff = id' friends))
            (mutualFriendCount_cte (friendships db) A)
            (\<lambda>(friends, ff) mut. mutual_friend mut = id' friends))))"
  unfolding getAll1_query_def mk_row_def ..

lemma getAll1_query_set:
  assumes d: "distinct (map id' (users db))"
  shows "set (getAll1_query db A) =
     {mk_row u (int (totalCount (friendships db) (id' u))) (batch_column (friendships db) A (id' u)) | u.
        u \<in> set (users db) \<and> id' u \<noteq> A \<and> 0 < totalCount (friendships db) (id' u)}"
  (is "?L = ?R")
proof -
  let ?fs = "friendships db"
  let ?FF = "friendsFriendships ?fs A"
  let ?key = "\<lambda>((friends, ff :: int \<times> int), mut :: mutual_row option). id' friends"
  let ?main = "leftJoin (innerJoin (users db) ?FF (\<lambda>friends ff. fst ff = id' friends))
              (mutualFriendCount_cte ?fs A) (\<lambda>(friends, ff) mut. mutual_friend mut = id' friends)"
  let ?sel = "\<lambda>(k :: int, g). case g of [] \<Rightarrow> []
                  | ((friends, ff :: int \<times> int), mut) # _ \<Rightarrow>
                      [mk_row friends (int (length g)) (column mutual_mutualFriendCount mut)]"
  have sel: "?sel (id' u, filter (\<lambda>r. ?key r = id' u) ?main)
             = [mk_row u (int (totalCount ?fs (id' u))) (batch_column ?fs A (id' u))]"
    if u: "u \<in> set (users db)" and nA: "id' u \<noteq> A" and pos: "0 < totalCount ?fs (id' u)" for u
  proof -
    let ?zs = "filter (\<lambda>ff. fst ff = id' u) ?FF"
    have g: "filter (\<lambda>r. ?key r = id' u) ?main = map (\<lambda>ff. ((u, ff), cte_partner ?fs A (id' u))) ?zs"
      using getAll1_group[OF d u, of ?fs A] by (simp add: case_prod_unfold)
    from nA have len: "length ?zs = totalCount ?fs (id' u)"
      by (simp add: friendsFriendships_filter_length)
    with pos obtain z zs' where zs: "?zs = z # zs'" by (cases ?zs) auto
    show ?thesis
      unfolding g using len by (simp add: zs column_cte_partner)
  qed
  have mem: "r \<in> ?L \<longleftrightarrow> (\<exists>k \<in> ?key ` set ?main. r \<in> set (?sel (k, filter (\<lambda>r. ?key r = k) ?main)))" for r
    unfolding getAll1_query_alt groupBy_def by (simp add: comp_def)
  show ?thesis
  proof (rule set_eqI, rule iffI)
    fix r assume "r \<in> ?L"
    then obtain k where k: "k \<in> ?key ` set ?main"
      and r: "r \<in> set (?sel (k, filter (\<lambda>r. ?key r = k) ?main))"
      unfolding mem by blast
    from k obtain u where u: "u \<in> set (users db)" "id' u \<noteq> A" "0 < totalCount ?fs (id' u)"
      and ku: "k = id' u"
      unfolding getAll1_keys by blast
    from r have "r \<in> set (?sel (id' u, filter (\<lambda>r. ?key r = id' u) ?main))"
      unfolding ku .
    then have "r = mk_row u (int (totalCount ?fs (id' u))) (batch_column ?fs A (id' u))"
      unfolding sel[OF u] by simp
    with u show "r \<in> ?R" by blast
  next
    fix r assume "r \<in> ?R"
    then obtain u where u: "u \<in> set (users db)" "id' u \<noteq> A" "0 < totalCount ?fs (id' u)"
      and r: "r = mk_row u (int (totalCount ?fs (id' u))) (batch_column ?fs A (id' u))"
      by blast
    from u have "id' u \<in> ?key ` set ?main"
      unfolding getAll1_keys by blast
    moreover have "r \<in> set (?sel (id' u, filter (\<lambda>r. ?key r = id' u) ?main))"
      unfolding sel[OF u] using r by simp
    ultimately show "r \<in> ?L" unfolding mem by blast
  qed
qed

section \<open>The procedure \<^verbatim>\<open>getById\<close>\<close>

lemma getById_mutation_NOT_FOUND:
  "getById_mutation db A B = Inl NOT_FOUND \<longleftrightarrow> set (getById_query db A B) = {}"
  unfolding getById_mutation_def
  by (cases "getById_query db A B") (simp_all add: parseFriendRecord_not_NOT_FOUND)

lemma getById_mutation_InrD:
  assumes "getById_mutation db A B = Inr x"
  shows "\<exists>u \<in> set (users db). id' u = B \<and> accepted_edge (friendships db) A B
           \<and> 0 < totalCount (friendships db) B
           \<and> parseFriendRecord (mk_row u (int (totalCount (friendships db) B))
                 (JNumber (int (mutualCount (friendships db) A B)))) = Inr x"
proof -
  from assms obtain r rs where rows: "getById_query db A B = r # rs" and p: "parseFriendRecord r = Inr x"
    unfolding getById_mutation_def by (cases "getById_query db A B") simp_all
  from rows have "r \<in> set (getById_query db A B)" by simp
  then show ?thesis using p unfolding getById_query_set by blast
qed

lemma getById_mutation_InrI:
  assumes u: "u \<in> set (users db)" "id' u = B" and v: "list_all valid_user (users db)"
    and acc: "accepted_edge (friendships db) A B" and pos: "0 < totalCount (friendships db) B"
  shows "\<exists>x. getById_mutation db A B = Inr x \<and> friend_id x = B
            \<and> totalFriendCount x = int (totalCount (friendships db) B)
            \<and> mutualFriendCount x = int (mutualCount (friendships db) A B)"
proof -
  let ?t = "int (totalCount (friendships db) B)" and ?m = "int (mutualCount (friendships db) A B)"
  from u acc pos have "mk_row u ?t (JNumber ?m) \<in> set (getById_query db A B)"
    unfolding getById_query_set by blast
  then obtain r rs where rows: "getById_query db A B = r # rs"
    by (cases "getById_query db A B") auto
  then have "r \<in> set (getById_query db A B)" by simp
  then obtain u' where u': "u' \<in> set (users db)" "id' u' = B" and r: "r = mk_row u' ?t (JNumber ?m)"
    unfolding getById_query_set by blast
  from v u' have "valid_user u'" by (simp add: list_all_iff)
  from parseFriendRecord_mk_row[OF this, of ?t ?m] r rows u' show ?thesis
    by (simp add: getById_mutation_def)
qed

lemma getById_valid: "1 \<le> B \<Longrightarrow> getById db A (JNumber B) = (getById_mutation db A B, 1)"
  by (simp add: getById_def IdSchema_def)

lemma getById_InrD:
  assumes "fst (getById db A v) = Inr x"
  shows "\<exists>B. v = JNumber B \<and> 1 \<le> B \<and> getById_mutation db A B = Inr x"
proof (cases "IdSchema v")
  case None
  with assms show ?thesis by (simp add: getById_def)
next
  case (Some B)
  with assms show ?thesis by (auto simp: getById_def IdSchema_Some)
qed

lemma getById_accepted_cases:
  assumes wf: "wf_db db" and acc: "accepted_edge (friendships db) A B"
  shows "1 \<le> B"
    and "0 < totalCount (friendships db) B \<Longrightarrow>
           \<exists>r. fst (getById db A (JNumber B)) = Inr r \<and> friend_id r = B
               \<and> totalFriendCount r = int (totalCount (friendships db) B)
               \<and> mutualFriendCount r = int (mutualCount (friendships db) A B)"
    and "totalCount (friendships db) B = 0 \<Longrightarrow> fst (getById db A (JNumber B)) = Inl NOT_FOUND"
proof -
  from acc obtain fr where fr: "fr \<in> set (friendships db)" "friendUserId fr = B"
    unfolding accepted_edge_iff by blast
  with wf have "B \<in> set (map id' (users db))"
    unfolding wf_db_def list_all_iff by blast
  then obtain u where u: "u \<in> set (users db)" "id' u = B" by auto
  from wf have v: "list_all valid_user (users db)" by (simp add: wf_db_def)
  with u show B: "1 \<le> B" by (auto simp: list_all_iff valid_user_def)
  {
    assume "0 < totalCount (friendships db) B"
    from getById_mutation_InrI[OF u v acc this] B
    show "\<exists>r. fst (getById db A (JNumber B)) = Inr r \<and> friend_id r = B
               \<and> totalFriendCount r = int (totalCount (friendships db) B)
               \<and> mutualFriendCount r = int (mutualCount (friendships db) A B)"
      by (simp add: getById_valid)
  }
  {
    assume "totalCount (friendships db) B = 0"
    then have "set (getById_query db A B) = {}"
      unfolding getById_query_set by simp
    with B show "fst (getById db A (JNumber B)) = Inl NOT_FOUND"
      by (simp add: getById_valid getById_mutation_NOT_FOUND)
  }
qed

lemma getById_no_edge:
  assumes "1 \<le> B" "\<not> accepted_edge (friendships db) A B"
  shows "fst (getById db A (JNumber B)) = Inl NOT_FOUND"
proof -
  from assms(2) have "set (getById_query db A B) = {}"
    unfolding getById_query_set by simp
  with assms(1) show ?thesis
    by (simp add: getById_valid getById_mutation_NOT_FOUND)
qed

lemma getById_result:
  assumes "fst (getById db A (JNumber B)) = Inr r"
  shows "friend_id r = B" "totalFriendCount r = int (totalCount (friendships db) B)"
    "mutualFriendCount r = int (mutualCount (friendships db) A B)"
    "accepted_edge (friendships db) A B" "0 < totalCount (friendships db) B"
proof -
  from getById_InrD[OF assms] have m: "getById_mutation db A B = Inr r" by simp
  from getById_mutation_InrD[OF m] obtain u where u: "id' u = B"
    and acc: "accepted_edge (friendships db) A B" and pos: "0 < totalCount (friendships db) B"
    and p: "parseFriendRecord (mk_row u (int (totalCount (friendships db) B))
                 (JNumber (int (mutualCount (friendships db) A B)))) = Inr r"
    by blast
  from parseFriendRecord_InrD[OF p] u
  show "friend_id r = B" "totalFriendCount r = int (totalCount (friendships db) B)"
    "mutualFriendCount r = int (mutualCount (friendships db) A B)"
    by auto
  from acc pos show "accepted_edge (friendships db) A B" "0 < totalCount (friendships db) B" .
qed

section \<open>Pairs without a shared neighbour\<close>

lemma mutualCount_zero:
  assumes "\<forall>w. \<not> (accepted_edge fs A w \<and> accepted_edge fs B w)"
  shows "mutualCount fs A B = 0"
proof -
  have "userMutualFriendCount_rows fs A B = []"
  proof (rule ccontr)
    assume "userMutualFriendCount_rows fs A B \<noteq> []"
    then obtain f1 f2 where "(f1, f2) \<in> set (userMutualFriendCount_rows fs A B)"
      by (cases "userMutualFriendCount_rows fs A B") auto
    then have m: "f1 \<in> set fs" "f2 \<in> set fs" "friendUserId f1 = friendUserId f2" "status f1 = accepted"
       "status f2 = accepted" "userId f1 = B" "userId f2 = A"
      unfolding userMutualFriendCount_rows_mem by simp_all
    then have "accepted_edge fs A (friendUserId f1) \<and> accepted_edge fs B (friendUserId f1)"
      unfolding accepted_edge_iff by metis
    with assms show False by blast
  qed
  then show ?thesis by (simp add: mutualCount_def)
qed

lemma asymmetric_web_accepted_5:
  "accepted_edge (friendships asymmetric_web) 5 w \<longleftrightarrow> w = 1"
  by (auto simp: accepted_edge_def asymmetric_web_def accepted_pair_def edge_def)

section \<open>\<^verbatim>\<open>getAll\<close> and \<^verbatim>\<open>getAll1\<close> where both return\<close>

text \<open>
  In a store with unique user ids, whenever both routes return for the same requester:
  every record of \<^verbatim>\<open>getAll\<close> is a record of \<^verbatim>\<open>getAll1\<close>; the ids of \<^verbatim>\<open>getAll\<close> are those of the
  users to whom the requester has an accepted edge and who themselves have an accepted
  outgoing edge; the ids of \<^verbatim>\<open>getAll1\<close> are those of all users other than the requester who
  have an accepted outgoing edge.
\<close>

lemma getAll_records_among_getAll1:
  assumes d: "distinct (map id' (users db))"
    and a: "getAll db A = Inr rs" and b: "getAll1 db A = Inr rs1"
  shows "set rs \<subseteq> set rs1
       \<and> friend_id ` set rs = {v \<in> id' ` set (users db). accepted_edge (friendships db) A v
            \<and> list_ex (\<lambda>f. userId f = v \<and> status f = accepted) (friendships db)}
       \<and> friend_id ` set rs1 = {v \<in> id' ` set (users db). v \<noteq> A
            \<and> list_ex (\<lambda>f. userId f = v \<and> status f = accepted) (friendships db)}"
proof (intro conjI)
  let ?fs = "friendships db"
  have "set (getAll_query db A) \<subseteq> set (getAll1_query db A)"
  proof
    fix row assume row: "row \<in> set (getAll_query db A)"
    then obtain u where u: "u \<in> set (users db)" "0 < totalCount ?fs (id' u)"
      and r: "row = mk_row u (int (totalCount ?fs (id' u))) (batch_column ?fs A (id' u))"
      unfolding getAll_query_set by blast
    from parseFriendRecords_Inr_row[OF a[unfolded getAll_def] row] obtain x
      where "parseFriendRecord row = Inr x" by blast
    from parseFriendRecord_InrD[OF this] r
    have "batch_column ?fs A (id' u) = JNumber (mutualFriendCount x)" by auto
    then have "id' u \<noteq> A" by (rule batch_column_JNumber[THEN conjunct2])
    with u r show "row \<in> set (getAll1_query db A)"
      unfolding getAll1_query_set[OF d] by blast
  qed
  with a b show "set rs \<subseteq> set rs1"
    unfolding getAll_def getAll1_def by (rule parseFriendRecords_mono)
next
  let ?fs = "friendships db"
  have "friend_id ` set rs = {id' u | u. u \<in> set (users db) \<and> accepted_edge ?fs A (id' u)
            \<and> 0 < totalCount ?fs (id' u)}"
    by (rule parseFriendRecords_ids[OF a[unfolded getAll_def] getAll_query_set])
  also have "\<dots> = {v \<in> id' ` set (users db). accepted_edge ?fs A v
            \<and> list_ex (\<lambda>f. userId f = v \<and> status f = accepted) ?fs}"
    unfolding has_accepted_outgoing by blast
  finally show "friend_id ` set rs = \<dots>" .
next
  let ?fs = "friendships db"
  have "friend_id ` set rs1 = {id' u | u. u \<in> set (users db) \<and> id' u \<noteq> A
            \<and> 0 < totalCount ?fs (id' u)}"
    by (rule parseFriendRecords_ids[OF b[unfolded getAll1_def] getAll1_query_set[OF d]])
  also have "\<dots> = {v \<in> id' ` set (users db). v \<noteq> A
            \<and> list_ex (\<lambda>f. userId f = v \<and> status f = accepted) ?fs}"
    unfolding has_accepted_outgoing by blast
  finally show "friend_id ` set rs1 = \<dots>" .
qed

text \<open>The chain satisfies the constraints of the schema and the symmetry invariant.\<close>

lemma chain_well_formed: "wf_db chain \<and> accepted_symmetric (friendships chain)"
  by code_simp

section \<open>Claims\<close>

subsection \<open>C1: cross-consistency of the mutual count\<close>

text \<open>
  C1, as amended. Whenever \<^verbatim>\<open>getById\<close> returns a record for requester \<open>A\<close> and target \<open>B\<close>
  and \<^verbatim>\<open>getAll\<close> returns the records of requester \<open>A\<close>, these contain a record with id \<open>B\<close>,
  and every such record has the \<^verbatim>\<open>mutualFriendCount\<close> that \<^verbatim>\<open>getById\<close> returned.
\<close>

theorem getById_getAll_cross_consistent:
  assumes g: "fst (getById db A (JNumber B)) = Inr r" and a: "getAll db A = Inr rs"
  shows "(\<exists>r' \<in> set rs. friend_id r' = B)
       \<and> (\<forall>r' \<in> set rs. friend_id r' = B \<longrightarrow> mutualFriendCount r' = mutualFriendCount r)"
proof (intro conjI ballI impI)
  let ?fs = "friendships db"
  from getById_InrD[OF g] have m: "getById_mutation db A B = Inr r" by simp
  from getById_mutation_InrD[OF m] obtain u where u: "u \<in> set (users db)" "id' u = B"
    and acc: "accepted_edge ?fs A B" and pos: "0 < totalCount ?fs B"
    by blast
  from u acc pos
  have "mk_row u (int (totalCount ?fs (id' u))) (batch_column ?fs A (id' u)) \<in> set (getAll_query db A)"
    unfolding getAll_query_set by blast
  from parseFriendRecords_Inr_row[OF a[unfolded getAll_def] this]
  obtain x where x: "x \<in> set rs"
    and p: "parseFriendRecord (mk_row u (int (totalCount ?fs (id' u))) (batch_column ?fs A (id' u))) = Inr x"
    by blast
  from parseFriendRecord_InrD[OF p] u have "friend_id x = B" by simp
  with x show "\<exists>r' \<in> set rs. friend_id r' = B" by blast
next
  let ?fs = "friendships db"
  fix r' assume r': "r' \<in> set rs" and B: "friend_id r' = B"
  from parseFriendRecords_Inr_result[OF a[unfolded getAll_def] r']
  obtain row where row: "row \<in> set (getAll_query db A)" and p: "parseFriendRecord row = Inr r'"
    by blast
  from row obtain u where rowu: "row = mk_row u (int (totalCount ?fs (id' u))) (batch_column ?fs A (id' u))"
    unfolding getAll_query_set by blast
  from parseFriendRecord_InrD[OF p] rowu B
  have "id' u = B \<and> batch_column ?fs A (id' u) = JNumber (mutualFriendCount r')"
    by auto
  then have "batch_column ?fs A B = JNumber (mutualFriendCount r')"
    by auto
  then have "mutualFriendCount r' = int (mutualCount ?fs A B)"
    by (rule batch_column_JNumber[THEN conjunct1])
  with getById_result(3)[OF g] show "mutualFriendCount r' = mutualFriendCount r" by simp
qed

text \<open>
  In the denser web both procedures return for requester 1, and user 2 has three mutual
  friends in both results.
\<close>

theorem getById_getAll_cross_consistent_witness:
  "fst (getById denser_web 1 (JNumber 2)) =
     Inr \<lparr>friend_id = 2, friend_fullName = ''user'', friend_phoneNumber = ''555'',
          totalFriendCount = 4, mutualFriendCount = 3\<rparr>
   \<and> getAll denser_web 1 = Inr [
     \<lparr>friend_id = 2, friend_fullName = ''user'', friend_phoneNumber = ''555'', totalFriendCount = 4, mutualFriendCount = 3\<rparr>,
     \<lparr>friend_id = 3, friend_fullName = ''user'', friend_phoneNumber = ''555'', totalFriendCount = 2, mutualFriendCount = 1\<rparr>,
     \<lparr>friend_id = 4, friend_fullName = ''user'', friend_phoneNumber = ''555'', totalFriendCount = 2, mutualFriendCount = 1\<rparr>,
     \<lparr>friend_id = 5, friend_fullName = ''user'', friend_phoneNumber = ''555'', totalFriendCount = 2, mutualFriendCount = 1\<rparr>]
   \<and> (\<exists>r' \<in> set [
     \<lparr>friend_id = 2, friend_fullName = ''user'', friend_phoneNumber = ''555'', totalFriendCount = 4, mutualFriendCount = 3\<rparr>,
     \<lparr>friend_id = 3, friend_fullName = ''user'', friend_phoneNumber = ''555'', totalFriendCount = 2, mutualFriendCount = 1\<rparr>,
     \<lparr>friend_id = 4, friend_fullName = ''user'', friend_phoneNumber = ''555'', totalFriendCount = 2, mutualFriendCount = 1\<rparr>,
     \<lparr>friend_id = 5, friend_fullName = ''user'', friend_phoneNumber = ''555'', totalFriendCount = 2, mutualFriendCount = 1\<rparr>].
        friend_id r' = 2 \<and> mutualFriendCount r' = 3)"
proof -
  let ?r = "\<lparr>friend_id = 2, friend_fullName = ''user'', friend_phoneNumber = ''555'',
          totalFriendCount = 4, mutualFriendCount = 3\<rparr>"
  let ?rs = "[
     \<lparr>friend_id = 2, friend_fullName = ''user'', friend_phoneNumber = ''555'', totalFriendCount = 4, mutualFriendCount = 3\<rparr>,
     \<lparr>friend_id = 3, friend_fullName = ''user'', friend_phoneNumber = ''555'', totalFriendCount = 2, mutualFriendCount = 1\<rparr>,
     \<lparr>friend_id = 4, friend_fullName = ''user'', friend_phoneNumber = ''555'', totalFriendCount = 2, mutualFriendCount = 1\<rparr>,
     \<lparr>friend_id = 5, friend_fullName = ''user'', friend_phoneNumber = ''555'', totalFriendCount = 2, mutualFriendCount = 1\<rparr>]"
  have g: "fst (getById denser_web 1 (JNumber 2)) = Inr ?r" by code_simp
  have a: "getAll denser_web 1 = Inr ?rs" by code_simp
  from getById_getAll_cross_consistent[OF g a] have
    "\<exists>r' \<in> set ?rs. friend_id r' = 2"
    "\<forall>r' \<in> set ?rs. friend_id r' = 2 \<longrightarrow> mutualFriendCount r' = mutualFriendCount ?r"
    by blast+
  then have "\<exists>r' \<in> set ?rs. friend_id r' = 2 \<and> mutualFriendCount r' = 3"
    by auto
  with g a show ?thesis by blast
qed

text \<open>
  C1 as stated fails on a symmetric state with an accepted self-edge \<open>(1, 1)\<close>: for the
  accepted pair \<open>(1, 1)\<close> \<^verbatim>\<open>getById\<close> returns the mutual count 2, while the batch aggregator
  excludes rows with \<^verbatim>\<open>f1.userId = f2.userId\<close>, so the row of user 1 in the query of
  \<^verbatim>\<open>getAll\<close> has no count at all.
\<close>

theorem getById_getAll_self_pair_counterexample:
  "wf_db self_loop \<and> accepted_symmetric (friendships self_loop)
   \<and> accepted_edge (friendships self_loop) 1 1
   \<and> fst (getById self_loop 1 (JNumber 1)) =
       Inr \<lparr>friend_id = 1, friend_fullName = ''user'', friend_phoneNumber = ''555'',
            totalFriendCount = 2, mutualFriendCount = 2\<rparr>
   \<and> getAll_query self_loop 1 =
       [\<lparr>row_id = JNumber 1, row_fullName = JString ''user'', row_phoneNumber = JString ''555'',
         row_totalFriendCount = JNumber 2, row_mutualFriendCount = JNull\<rparr>,
        \<lparr>row_id = JNumber 2, row_fullName = JString ''user'', row_phoneNumber = JString ''555'',
         row_totalFriendCount = JNumber 1, row_mutualFriendCount = JNumber 1\<rparr>]
   \<and> getAll self_loop 1 = Inl ZodError"
  by code_simp

subsection \<open>C2: zero default\<close>

text \<open>
  C2, as amended. In a store that satisfies the constraints of the schema and the symmetry
  invariant, for a friend \<open>B\<close> of the requester \<open>A\<close> such that neither has an accepted
  self-edge and the two share no third user as an accepted neighbour, \<^verbatim>\<open>getById\<close> returns the
  record of \<open>B\<close> with \<^verbatim>\<open>mutualFriendCount = 0\<close>.
\<close>

theorem getById_zero_default:
  assumes "wf_db db" "accepted_symmetric (friendships db)"
    and "accepted_edge (friendships db) A B"
    and "\<not> accepted_edge (friendships db) A A" "\<not> accepted_edge (friendships db) B B"
    and "\<not> (\<exists>w. w \<noteq> A \<and> w \<noteq> B
              \<and> accepted_edge (friendships db) A w \<and> accepted_edge (friendships db) B w)"
  shows "\<exists>r. fst (getById db A (JNumber B)) = Inr r \<and> friend_id r = B \<and> mutualFriendCount r = 0"
proof -
  let ?fs = "friendships db"
  from assms(3) obtain fr where "fr \<in> set ?fs" "userId fr = A" "friendUserId fr = B" "status fr = accepted"
    unfolding accepted_edge_iff by blast
  with assms(2) have "accepted_edge ?fs B A"
    unfolding accepted_symmetric_iff by blast
  then have pos: "0 < totalCount ?fs B"
    unfolding totalCount_pos accepted_edge_iff by blast
  from assms(4-6) have "\<forall>w. \<not> (accepted_edge ?fs A w \<and> accepted_edge ?fs B w)"
    by metis
  then have "mutualCount ?fs A B = 0" by (rule mutualCount_zero)
  with getById_accepted_cases(2)[OF assms(1) assms(3) pos] show ?thesis by auto
qed

text \<open>In the first scenario of the test file user 5 shares no neighbour with user 1.\<close>

theorem getById_zero_default_witness:
  "wf_db asymmetric_web \<and> accepted_symmetric (friendships asymmetric_web)
   \<and> accepted_edge (friendships asymmetric_web) 1 5
   \<and> \<not> accepted_edge (friendships asymmetric_web) 1 1
   \<and> \<not> accepted_edge (friendships asymmetric_web) 5 5
   \<and> \<not> (\<exists>w. w \<noteq> 1 \<and> w \<noteq> 5 \<and> accepted_edge (friendships asymmetric_web) 1 w
              \<and> accepted_edge (friendships asymmetric_web) 5 w)
   \<and> (\<exists>r. fst (getById asymmetric_web 1 (JNumber 5)) = Inr r \<and> friend_id r = 5
          \<and> mutualFriendCount r = 0)"
proof -
  have h: "wf_db asymmetric_web" "accepted_symmetric (friendships asymmetric_web)"
    "accepted_edge (friendships asymmetric_web) 1 5"
    "\<not> accepted_edge (friendships asymmetric_web) 1 1"
    "\<not> accepted_edge (friendships asymmetric_web) 5 5"
    by code_simp+
  have n: "\<not> (\<exists>w. w \<noteq> 1 \<and> w \<noteq> 5 \<and> accepted_edge (friendships asymmetric_web) 1 w
              \<and> accepted_edge (friendships asymmetric_web) 5 w)"
    by (simp add: asymmetric_web_accepted_5)
  from getById_zero_default[OF h n] h n show ?thesis by blast
qed

text \<open>
  C2 as stated, for every edge state, fails: the store holds the users 1 and 2 only, so the
  friend 2 of requester 1 shares no third user with 1, and yet \<^verbatim>\<open>getById\<close> returns
  \<^verbatim>\<open>mutualFriendCount = 1\<close>: the accepted self-edge \<open>(1, 1)\<close> makes user 1 a neighbour of both.
\<close>

theorem getById_self_edge_counted_counterexample:
  "accepted_edge (friendships self_loop) 1 2
   \<and> map id' (users self_loop) = [1, 2]
   \<and> fst (getById self_loop 1 (JNumber 2)) =
       Inr \<lparr>friend_id = 2, friend_fullName = ''user'', friend_phoneNumber = ''555'',
            totalFriendCount = 1, mutualFriendCount = 1\<rparr>"
  by code_simp

subsection \<open>C3: \<^verbatim>\<open>NOT_FOUND\<close>\<close>

text \<open>
  C3, as amended. In a store that satisfies the constraints of the schema and the
  accepted-symmetry invariant, and for a valid target id, \<^verbatim>\<open>getById\<close> fails with \<^verbatim>\<open>NOT_FOUND\<close>
  exactly when there is no accepted edge from the requester to the target; when there is
  one, it returns a record whose id is the target's.
\<close>

theorem getById_NOT_FOUND_iff:
  assumes "wf_db db" "accepted_symmetric (friendships db)" "1 \<le> B"
  shows "(fst (getById db A (JNumber B)) = Inl NOT_FOUND
            \<longleftrightarrow> \<not> accepted_edge (friendships db) A B)
         \<and> (accepted_edge (friendships db) A B
              \<longrightarrow> (\<exists>r. fst (getById db A (JNumber B)) = Inr r \<and> friend_id r = B))"
proof (cases "accepted_edge (friendships db) A B")
  case False
  with getById_no_edge[OF assms(3) False] show ?thesis by simp
next
  case True
  then obtain fr where fr: "fr \<in> set (friendships db)" "userId fr = A" "friendUserId fr = B"
      "status fr = accepted"
    unfolding accepted_edge_iff by blast
  with assms(2) have "accepted_edge (friendships db) B A"
    unfolding accepted_symmetric_iff by blast
  then have "0 < totalCount (friendships db) B"
    unfolding totalCount_pos accepted_edge_iff by blast
  from getById_accepted_cases(2)[OF assms(1) True this] True show ?thesis by auto
qed

text \<open>The star graph satisfies the hypotheses, and B finds A.\<close>

theorem getById_NOT_FOUND_iff_witness:
  "wf_db star_graph \<and> accepted_symmetric (friendships star_graph) \<and> (1::int) \<le> 1
   \<and> accepted_edge (friendships star_graph) 2 1
   \<and> fst (getById star_graph 2 (JNumber 1)) \<noteq> Inl NOT_FOUND
   \<and> (\<exists>r. fst (getById star_graph 2 (JNumber 1)) = Inr r \<and> friend_id r = 1)"
proof -
  have h: "wf_db star_graph" "accepted_symmetric (friendships star_graph)" "(1::int) \<le> 1"
    by code_simp+
  have a: "accepted_edge (friendships star_graph) 2 1" by code_simp
  from getById_NOT_FOUND_iff[OF h, of 2] a h show ?thesis by simp
qed

text \<open>
  C3 as stated, without the symmetry invariant, fails: with the single accepted edge
  \<open>(1, 2)\<close> the inner join with \<^verbatim>\<open>userTotalFriendCount\<close> drops the row of user 2, who has no
  accepted outgoing edge, and \<^verbatim>\<open>getById\<close> answers \<^verbatim>\<open>NOT_FOUND\<close> although the accepted edge exists.
\<close>

theorem getById_NOT_FOUND_counterexample:
  "wf_db one_way \<and> accepted_edge (friendships one_way) 1 2
   \<and> fst (getById one_way 1 (JNumber 2)) = Inl NOT_FOUND"
  by code_simp

subsection \<open>C4: the records of \<^verbatim>\<open>getAll\<close>\<close>

text \<open>
  C4 at the first scenario of the test file, a symmetric state: user 5 shares no neighbour
  with user 1. \<^verbatim>\<open>getById\<close> returns user 5 with \<^verbatim>\<open>mutualFriendCount = 0\<close>; the row of user 5 in
  the query of \<^verbatim>\<open>getAll\<close> carries NULL, since that select has no \<^verbatim>\<open>coalesce\<close>, the parse of the
  result fails and \<^verbatim>\<open>getAll\<close> returns no record at all.
\<close>

theorem getAll_null_for_friend_without_mutuals:
  "fst (getById asymmetric_web 1 (JNumber 5)) =
     Inr \<lparr>friend_id = 5, friend_fullName = ''user'', friend_phoneNumber = ''555'',
          totalFriendCount = 1, mutualFriendCount = 0\<rparr>
   \<and> filter (\<lambda>r. row_id r = JNumber 5) (getAll_query asymmetric_web 1) =
     [\<lparr>row_id = JNumber 5, row_fullName = JString ''user'', row_phoneNumber = JString ''555'',
       row_totalFriendCount = JNumber 1, row_mutualFriendCount = JNull\<rparr>]
   \<and> getAll asymmetric_web 1 = Inl ZodError"
  by code_simp

subsection \<open>C5: the total count is the target's\<close>

text \<open>
  C5. Whenever \<^verbatim>\<open>getById\<close> returns a record for requester \<open>A\<close> and target \<open>B\<close>, its
  \<^verbatim>\<open>totalFriendCount\<close> is the number of rows \<open>(B, *, accepted)\<close> of \<^verbatim>\<open>friendships\<close>; every
  other requester \<open>C\<close> for whom \<^verbatim>\<open>getById\<close> returns a record of \<open>B\<close> gets the same value; and
  \<^verbatim>\<open>getById\<close> does return a record for every accepted pair of a store that satisfies the
  constraints of the schema and the symmetry invariant.
\<close>

theorem getById_totalFriendCount_of_target:
  "(fst (getById db A (JNumber B)) = Inr r
      \<longrightarrow> totalFriendCount r
           = int (length (filter (\<lambda>f. userId f = B \<and> status f = accepted) (friendships db))))
   \<and> (fst (getById db A (JNumber B)) = Inr r \<and> fst (getById db C (JNumber B)) = Inr r'
      \<longrightarrow> totalFriendCount r' = totalFriendCount r)
   \<and> (wf_db db \<and> accepted_symmetric (friendships db) \<and> accepted_edge (friendships db) A B
      \<longrightarrow> (\<exists>x. fst (getById db A (JNumber B)) = Inr x))"
proof (intro conjI impI)
  assume "fst (getById db A (JNumber B)) = Inr r"
  from getById_result(2)[OF this]
  show "totalFriendCount r
           = int (length (filter (\<lambda>f. userId f = B \<and> status f = accepted) (friendships db)))"
    by (simp add: totalCount_eq)
next
  assume "fst (getById db A (JNumber B)) = Inr r \<and> fst (getById db C (JNumber B)) = Inr r'"
  then have "fst (getById db A (JNumber B)) = Inr r" "fst (getById db C (JNumber B)) = Inr r'"
    by simp_all
  from getById_result(2)[OF this(1)] getById_result(2)[OF this(2)]
  show "totalFriendCount r' = totalFriendCount r" by simp
next
  let ?fs = "friendships db"
  assume h: "wf_db db \<and> accepted_symmetric ?fs \<and> accepted_edge ?fs A B"
  then obtain fr where "fr \<in> set ?fs" "userId fr = A" "friendUserId fr = B" "status fr = accepted"
    unfolding accepted_edge_iff by blast
  with h have "accepted_edge ?fs B A"
    unfolding accepted_symmetric_iff by blast
  then have pos: "0 < totalCount ?fs B"
    unfolding totalCount_pos accepted_edge_iff by blast
  from h have "wf_db db" "accepted_edge ?fs A B" by simp_all
  from getById_accepted_cases(2)[OF this pos]
  show "\<exists>x. fst (getById db A (JNumber B)) = Inr x" by blast
qed

text \<open>The star graph of the test file: B and C both see A with four friends.\<close>

theorem getById_totalFriendCount_of_target_witness:
  "wf_db star_graph \<and> accepted_symmetric (friendships star_graph)
   \<and> accepted_edge (friendships star_graph) 2 1
   \<and> fst (getById star_graph 2 (JNumber 1)) =
     Inr \<lparr>friend_id = 1, friend_fullName = ''user'', friend_phoneNumber = ''555'',
          totalFriendCount = 4, mutualFriendCount = 0\<rparr>
   \<and> fst (getById star_graph 3 (JNumber 1)) =
     Inr \<lparr>friend_id = 1, friend_fullName = ''user'', friend_phoneNumber = ''555'',
          totalFriendCount = 4, mutualFriendCount = 0\<rparr>
   \<and> int (length (filter (\<lambda>f. userId f = 1 \<and> status f = accepted) (friendships star_graph))) = 4"
proof -
  let ?r = "\<lparr>friend_id = 1, friend_fullName = ''user'', friend_phoneNumber = ''555'',
          totalFriendCount = 4, mutualFriendCount = 0\<rparr>"
  have w: "wf_db star_graph" "accepted_symmetric (friendships star_graph)"
     "accepted_edge (friendships star_graph) 2 1"
    by code_simp+
  have h: "fst (getById star_graph 2 (JNumber 1)) = Inr ?r"
    by code_simp
  have h': "fst (getById star_graph 3 (JNumber 1)) = Inr ?r"
    by code_simp
  from getById_totalFriendCount_of_target[of star_graph 2 1 ?r 3 ?r] w h h'
  show ?thesis by simp
qed

subsection \<open>C6: no self-counting\<close>

text \<open>
  C6, as amended. When neither \<open>A\<close> nor \<open>B\<close> has an accepted self-edge, the count that the
  single-pair aggregator reports for \<open>(A, B)\<close>, and the count that the batch aggregator for
  \<open>A\<close> reports in its row for \<open>B\<close>, is the number of joined pairs whose shared neighbour is
  neither \<open>A\<close> nor \<open>B\<close>.
\<close>

theorem mutual_counts_third_parties_only:
  assumes "\<not> accepted_edge fs A A" "\<not> accepted_edge fs B B"
  shows "(\<forall>m \<in> set (userMutualFriendCount fs A B).
            mutual_mutualFriendCount m = int (length (third_party_rows fs A B)))
       \<and> (\<forall>m \<in> set (mutualFriendsCountAll fs A). mutual_user m = B \<longrightarrow>
            mutual_mutualFriendCount m = int (length (third_party_rows fs A B)))"
proof (intro conjI ballI impI)
  fix m assume "m \<in> set (userMutualFriendCount fs A B)"
  then show "mutual_mutualFriendCount m = int (length (third_party_rows fs A B))"
    unfolding mutual_single_mem third_party_rows_eq[OF assms] mutualCount_def by simp
next
  fix m assume "m \<in> set (mutualFriendsCountAll fs A)" "mutual_user m = B"
  with mutual_all_mem[of m fs A B]
  show "mutual_mutualFriendCount m = int (length (third_party_rows fs A B))"
    unfolding third_party_rows_eq[OF assms] mutualCount_def by simp
qed

text \<open>
  In the asymmetric web, users 1 and 2 have no self-edges and share the neighbours 3 and 4.
\<close>

theorem mutual_counts_third_parties_only_witness:
  "\<not> accepted_edge (friendships asymmetric_web) 1 1 \<and> \<not> accepted_edge (friendships asymmetric_web) 2 2
   \<and> userMutualFriendCount (friendships asymmetric_web) 1 2
       = [\<lparr>mutual_user = 2, mutual_friend = 1, mutual_mutualFriendCount = 2\<rparr>]
   \<and> filter (\<lambda>m. mutual_user m = 2) (mutualFriendsCountAll (friendships asymmetric_web) 1)
       = [\<lparr>mutual_user = 2, mutual_friend = 1, mutual_mutualFriendCount = 2\<rparr>]
   \<and> int (length (third_party_rows (friendships asymmetric_web) 1 2)) = 2"
proof -
  have h: "\<not> accepted_edge (friendships asymmetric_web) 1 1"
     "\<not> accepted_edge (friendships asymmetric_web) 2 2"
    by code_simp+
  have s: "userMutualFriendCount (friendships asymmetric_web) 1 2
       = [\<lparr>mutual_user = 2, mutual_friend = 1, mutual_mutualFriendCount = 2\<rparr>]"
    by code_simp
  have b: "filter (\<lambda>m. mutual_user m = 2) (mutualFriendsCountAll (friendships asymmetric_web) 1)
       = [\<lparr>mutual_user = 2, mutual_friend = 1, mutual_mutualFriendCount = 2\<rparr>]"
    by code_simp
  from mutual_counts_third_parties_only[OF h] s b h show ?thesis by simp
qed

text \<open>
  C6 as stated, for states with self-edges, fails: with the accepted self-edge \<open>(1, 1)\<close> and
  the friendship of 1 and 2, both aggregators report one mutual friend for the pair
  \<open>(1, 2)\<close>, and the shared neighbour of the one counted pair is user 1 itself; no third
  user is shared.
\<close>

theorem mutual_counts_self_edge_counterexample:
  "userMutualFriendCount (friendships self_loop) 1 2
       = [\<lparr>mutual_user = 2, mutual_friend = 1, mutual_mutualFriendCount = 1\<rparr>]
   \<and> mutualFriendsCountAll (friendships self_loop) 1
       = [\<lparr>mutual_user = 2, mutual_friend = 1, mutual_mutualFriendCount = 1\<rparr>]
   \<and> map (\<lambda>(f1, f2). friendUserId f1) (userMutualFriendCount_rows (friendships self_loop) 1 2) = [1]
   \<and> map (\<lambda>(f1, f2). friendUserId f1) (mutualFriendsCountAll_rows (friendships self_loop) 1) = [1]
   \<and> third_party_rows (friendships self_loop) 1 2 = []"
  by code_simp

subsection \<open>C7: symmetry of the single-pair count\<close>

text \<open>
  C7. For every edge state and every pair \<open>(A, B)\<close>, the single-pair aggregator
  \<^verbatim>\<open>userMutualFriendCount\<close> yields the same count for \<open>(A, B)\<close> as for \<open>(B, A)\<close>: either both
  results are empty, or each holds one row and the two rows carry the same
  \<^verbatim>\<open>mutualFriendCount\<close>. No assumption on the pair is needed.
\<close>

theorem userMutualFriendCount_symmetric:
  "map mutual_mutualFriendCount (userMutualFriendCount fs A B)
   = map mutual_mutualFriendCount (userMutualFriendCount fs B A)"
  unfolding userMutualFriendCount_eq mutualCount_swap[of fs A B] by simp

subsection \<open>C8: a target without accepted outgoing edges\<close>

text \<open>
  C8, as amended. For an accepted edge \<open>(A, B)\<close> in a store that satisfies the constraints
  of the schema, \<^verbatim>\<open>getById\<close> returns the target's record when the target has at least one
  accepted outgoing edge, and fails with \<^verbatim>\<open>NOT_FOUND\<close> when it has none: the total count is
  joined with \<^verbatim>\<open>innerJoin\<close>, not with an outer join and a default.
\<close>

theorem getById_inner_join_total:
  assumes "wf_db db" "accepted_edge (friendships db) A B"
  shows "if list_ex (\<lambda>f. userId f = B \<and> status f = accepted) (friendships db)
         then \<exists>r. fst (getById db A (JNumber B)) = Inr r \<and> friend_id r = B
         else fst (getById db A (JNumber B)) = Inl NOT_FOUND"
proof (cases "0 < totalCount (friendships db) B")
  case True
  from getById_accepted_cases(2)[OF assms True] True show ?thesis
    by (auto simp: totalCount_pos list_ex_iff)
next
  case False
  then have z: "totalCount (friendships db) B = 0" by simp
  from getById_accepted_cases(3)[OF assms z] False show ?thesis
    by (simp add: totalCount_pos list_ex_iff)
qed

text \<open>In the denser web, user 2 has accepted edges and user 1 finds user 2.\<close>

theorem getById_inner_join_total_witness:
  "wf_db denser_web \<and> accepted_edge (friendships denser_web) 1 2
   \<and> list_ex (\<lambda>f. userId f = 2 \<and> status f = accepted) (friendships denser_web)
   \<and> (\<exists>r. fst (getById denser_web 1 (JNumber 2)) = Inr r \<and> friend_id r = 2)"
proof -
  have h: "wf_db denser_web" "accepted_edge (friendships denser_web) 1 2"
    by code_simp+
  have l: "list_ex (\<lambda>f. userId f = 2 \<and> status f = accepted) (friendships denser_web)"
    by code_simp
  from getById_inner_join_total[OF h] l h show ?thesis by simp
qed

text \<open>
  C8 as stated fails: user 1 holds an accepted edge to user 3, user 3 has no accepted
  outgoing edge (the reverse edge is still \<^verbatim>\<open>requested\<close>), and \<^verbatim>\<open>getById\<close> answers \<^verbatim>\<open>NOT_FOUND\<close>
  instead of the record of user 3.
\<close>

theorem getById_zero_friend_target_counterexample:
  "wf_db half_accepted \<and> accepted_edge (friendships half_accepted) 1 3
   \<and> \<not> list_ex (\<lambda>f. userId f = 3 \<and> status f = accepted) (friendships half_accepted)
   \<and> fst (getById half_accepted 1 (JNumber 3)) = Inl NOT_FOUND"
  by code_simp

subsection \<open>C9: malformed input\<close>

text \<open>
  C9. When \<^verbatim>\<open>friendUserId\<close> is not a positive integer (a number below 1, or a value of another
  type), \<^verbatim>\<open>getById\<close> answers \<^verbatim>\<open>BAD_REQUEST\<close> and has executed no query; the answer does not
  depend on the store.
\<close>

theorem getById_rejects_malformed_id:
  assumes "case v of JNumber n \<Rightarrow> n \<le> 0 | _ \<Rightarrow> True"
  shows "getById db A v = (Inl BAD_REQUEST, 0)"
  using assms by (cases v) (simp_all add: getById_def IdSchema_def)

text \<open>The id 0 and the string "1" are both rejected.\<close>

theorem getById_rejects_malformed_id_witness:
  "getById star_graph 2 (JNumber 0) = (Inl BAD_REQUEST, 0)
   \<and> getById star_graph 2 (JString ''1'') = (Inl BAD_REQUEST, 0)"
  using getById_rejects_malformed_id[of "JNumber 0" star_graph 2]
    getById_rejects_malformed_id[of "JString ''1''" star_graph 2]
  by simp

subsection \<open>C10: \<^verbatim>\<open>getAll\<close> and \<^verbatim>\<open>getAll1\<close>\<close>

text \<open>
  C10 at the chain 1-2, 1-3, 2-3, 3-4, a well-formed and symmetric state (see
  \<open>chain_well_formed\<close>), for requester 1. \<^verbatim>\<open>getAll\<close> returns the records of the friends 2 and 3.
  \<^verbatim>\<open>getAll1\<close> returns those two records and the record of user 4 as well, although user 1 has
  no accepted edge to user 4: its main select joins \<^verbatim>\<open>users as friends\<close> with
  \<^verbatim>\<open>friendsFriendships\<close> only and never restricts the users to those of \<^verbatim>\<open>userFriendships\<close>.
\<close>

theorem getAll1_returns_non_friend_on_chain:
  "getAll chain 1 = Inr [
     \<lparr>friend_id = 2, friend_fullName = ''user'', friend_phoneNumber = ''555'', totalFriendCount = 2, mutualFriendCount = 1\<rparr>,
     \<lparr>friend_id = 3, friend_fullName = ''user'', friend_phoneNumber = ''555'', totalFriendCount = 3, mutualFriendCount = 1\<rparr>]
   \<and> getAll1 chain 1 = Inr [
     \<lparr>friend_id = 2, friend_fullName = ''user'', friend_phoneNumber = ''555'', totalFriendCount = 2, mutualFriendCount = 1\<rparr>,
     \<lparr>friend_id = 3, friend_fullName = ''user'', friend_phoneNumber = ''555'', totalFriendCount = 3, mutualFriendCount = 1\<rparr>,
     \<lparr>friend_id = 4, friend_fullName = ''user'', friend_phoneNumber = ''555'', totalFriendCount = 1, mutualFriendCount = 1\<rparr>]
   \<and> \<not> accepted_edge (friendships chain) 1 4"
  by code_simp

end
